theory Spec2Isabelle
  imports Complex_Main
begin

section \<open>JavaScript values and strings\<close>

text \<open>
  The classifier services answer with untyped JSON, and the source reads it with
  JavaScript's dynamic operators (truthiness, strict equality, comparison, property access).
  \<open>jsval\<close> is the value a \<^verbatim>\<open>JSON.parse\<close> can produce, plus \<^verbatim>\<open>undefined\<close> for a
  property that is absent. Numbers are the finite ones, as rationals; strings are
  byte strings.
\<close>

datatype jsval =
    JUndefined
  | JNull
  | JBool bool
  | JNum rat
  | JStr string
  | JArr "jsval list"
  | JObj "(string \<times> jsval) list"

text \<open>\<^verbatim>\<open>!v\<close> is \<open>\<not> truthy v\<close>.\<close>

fun truthy :: "jsval \<Rightarrow> bool" where
  "truthy JUndefined = False"
| "truthy JNull = False"
| "truthy (JBool b) = b"
| "truthy (JNum x) = (x \<noteq> 0)"
| "truthy (JStr s) = (s \<noteq> [])"
| "truthy (JArr xs) = True"
| "truthy (JObj kvs) = True"

text \<open>\<^verbatim>\<open>a || b\<close> on values.\<close>

definition js_or :: "jsval \<Rightarrow> jsval \<Rightarrow> jsval" where
  "js_or a b = (if truthy a then a else b)"

text \<open>
  \<^verbatim>\<open>v.key\<close> for the named keys the source reads. Reading a property of \<^verbatim>\<open>null\<close> or
  \<^verbatim>\<open>undefined\<close> raises a TypeError (\<open>None\<close>); on a number, boolean, string or array these
  keys are absent.
\<close>

fun get_field :: "jsval \<Rightarrow> string \<Rightarrow> jsval option" where
  "get_field JUndefined k = None"
| "get_field JNull k = None"
| "get_field (JObj kvs) k = (case map_of kvs k of None \<Rightarrow> Some JUndefined | Some v \<Rightarrow> Some v)"
| "get_field v k = Some JUndefined"

text \<open>\<^verbatim>\<open>v[0]\<close>.\<close>

fun get_index0 :: "jsval \<Rightarrow> jsval option" where
  "get_index0 JUndefined = None"
| "get_index0 JNull = None"
| "get_index0 (JArr []) = Some JUndefined"
| "get_index0 (JArr (x # xs)) = Some x"
| "get_index0 (JStr []) = Some JUndefined"
| "get_index0 (JStr (c # cs)) = Some (JStr [c])"
| "get_index0 (JObj kvs) = (case map_of kvs ''0'' of None \<Rightarrow> Some JUndefined | Some v \<Rightarrow> Some v)"
| "get_index0 v = Some JUndefined"

text \<open>
  \<^verbatim>\<open>ToNumber\<close>: \<open>None\<close> is NaN. The conversion of strings, arrays and objects is the
  runtime's and is a parameter \<open>conv\<close>.
\<close>

fun js_to_number :: "(jsval \<Rightarrow> rat option) \<Rightarrow> jsval \<Rightarrow> rat option" where
  "js_to_number conv JUndefined = None"
| "js_to_number conv JNull = Some 0"
| "js_to_number conv (JBool b) = Some (if b then 1 else 0)"
| "js_to_number conv (JNum x) = Some x"
| "js_to_number conv v = conv v"

text \<open>\<^verbatim>\<open>v > t\<close> for a numeric literal \<open>t\<close>: false when \<open>v\<close> converts to NaN.\<close>

definition js_gt :: "(jsval \<Rightarrow> rat option) \<Rightarrow> jsval \<Rightarrow> rat \<Rightarrow> bool" where
  "js_gt conv v t = (case js_to_number conv v of None \<Rightarrow> False | Some x \<Rightarrow> t < x)"

text \<open>\<^verbatim>\<open>Number(v) || 0\<close>.\<close>

definition js_number_or_zero :: "(jsval \<Rightarrow> rat option) \<Rightarrow> jsval \<Rightarrow> rat" where
  "js_number_or_zero conv v = (case js_to_number conv v of None \<Rightarrow> 0 | Some x \<Rightarrow> x)"

text \<open>\<^verbatim>\<open>String(v)\<close>; the rendering of a non-string is the runtime's (\<open>show\<close>).\<close>

fun js_String :: "(jsval \<Rightarrow> string) \<Rightarrow> jsval \<Rightarrow> string" where
  "js_String shw (JStr s) = s"
| "js_String shw v = shw v"

text \<open>ASCII lower-casing, whitespace and substring search on byte strings.\<close>

definition to_lower_char :: "char \<Rightarrow> char" where
  "to_lower_char c =
     (let n = (of_char c :: nat) in if 65 \<le> n \<and> n \<le> 90 then char_of (n + 32) else c)"

definition toLowerCase :: "string \<Rightarrow> string" where
  "toLowerCase s = map to_lower_char s"

definition is_ws :: "char \<Rightarrow> bool" where
  "is_ws c = ((of_char c :: nat) \<in> {9, 10, 11, 12, 13, 32})"

definition trim :: "string \<Rightarrow> string" where
  "trim s = rev (dropWhile is_ws (rev (dropWhile is_ws s)))"

fun starts_with :: "string \<Rightarrow> string \<Rightarrow> bool" where
  "starts_with s [] = True"
| "starts_with [] (p # ps) = False"
| "starts_with (c # cs) (p # ps) = (c = p \<and> starts_with cs ps)"

text \<open>\<^verbatim>\<open>s.includes(p)\<close>.\<close>

fun includes_str :: "string \<Rightarrow> string \<Rightarrow> bool" where
  "includes_str [] p = (p = [])"
| "includes_str (c # cs) p = (starts_with (c # cs) p \<or> includes_str cs p)"

text \<open>
  \<^verbatim>\<open>content.match(/\{[\s\S]*\}/)\<close>: the greedy match runs from the first opening brace
  to the last closing brace after it; \<open>None\<close> when there is no such pair.
\<close>

definition extract_json :: "string \<Rightarrow> string option" where
  "extract_json content =
     (let from_brace = dropWhile (\<lambda>c. c \<noteq> CHR ''{'') content;
          matched = rev (dropWhile (\<lambda>c. c \<noteq> CHR ''}'') (rev from_brace))
      in if matched = [] then None else Some matched)"

section \<open>Collaborators: configuration, HTTP, document store\<close>

text \<open>What an awaited \<^verbatim>\<open>fetch\<close> gives: it rejects (network error, timeout), or it resolves
  to a response whose body may or may not be readable as text and as JSON.\<close>

record http_response =
  resp_ok :: bool
  resp_status :: nat
  resp_text :: "string option"
  resp_json :: "jsval option"

datatype fetch_outcome = FetchRejected | FetchResolved http_response

datatype warning_reason = upload_abuse | spam | harassment | rule_violation

text \<open>
  Every call that leaves the process is an event. The trace of events is the observable
  behaviour of a run: which writes were issued, in which order, and which classifier
  was contacted.
\<close>

datatype event =
    EvAssetUpdate string string
  | EvImageFetch string
  | EvTextFetch string
  | EvWarningsQuery string warning_reason
  | EvWarningsAdd string warning_reason
  | EvUsersQueryExpired
  | EvUserUpdate string bool
  | EvAuthUpdate string bool
  | EvNotificationAdd string string
  | EvAuditAdd string string string

text \<open>Every \<^verbatim>\<open>throw\<close> site of the source, and the errors of the runtime and collaborators.\<close>

datatype error =
    ServiceUnavailable
  | KeyNotConfigured
  | NetworkError
  | OpenRouterApiError nat string
  | BodyUnreadable
  | InvalidResponseFormat
  | TypeError
  | NoJsonInResponse
  | InvalidJson
  | DetectionFailed error
  | CallFailed event
  | NotFound event

text \<open>
  The environment of a run: process configuration, the answers of the two classifier
  services, the runtime's own conversions, and \<open>throws\<close>, which decides from the history
  of calls so far whether the next call to the document store, the auth service or the
  notification sink throws.
\<close>

record env =
  OPENROUTER_API_KEY :: "string option"
  JIGSAWSTACK_API_KEY :: "string option"
  image_fetch :: "string \<Rightarrow> fetch_outcome"
  text_fetch :: "string \<Rightarrow> fetch_outcome"
  JSON_parse :: "string \<Rightarrow> jsval option"
  valid_URL :: "string \<Rightarrow> bool"
  to_number_conv :: "jsval \<Rightarrow> rat option"
  to_string_conv :: "jsval \<Rightarrow> string"
  toFixed1 :: "rat \<Rightarrow> string"
  new_doc_id :: "nat \<Rightarrow> string"
  throws :: "event list \<Rightarrow> event \<Rightarrow> bool"

text \<open>\<^verbatim>\<open>!KEY\<close> for an environment variable: unset or empty.\<close>

definition key_missing :: "string option \<Rightarrow> bool" where
  "key_missing k = (case k of None \<Rightarrow> True | Some s \<Rightarrow> s = [])"

section \<open>Data model\<close>

text \<open>
  The documents of the store, with the fields that the operations read or write. The
  reason stored with a rejection is one of the four texts the handler composes. An absent
  or null \<^verbatim>\<open>imageUrl\<close> is \<open>None\<close>. The body of a notification influences nothing and is
  left out.
\<close>

datatype rejection =
    NoImageProvided
  | InvalidImageUrl
  | ContentViolation string
  | VerificationFailed error

record asset =
  status :: string
  authorId :: string
  name :: string
  description :: string
  tags :: "string list"
  imageUrl :: "string option"
  rejectionReason :: "rejection option"
  rejectionDate :: "int option"
  publishedDate :: "int option"
  nsfwChecked :: bool
  nsfwConfidence :: "rat option"
  nsfwReason :: "string option"

record warning =
  w_userId :: string
  w_reason :: warning_reason
  w_message :: string
  w_evidence :: "string option"
  w_isActive :: bool
  w_createdAt :: int

record user =
  isBanned :: bool
  banReason :: "string option"
  banDate :: "int option"
  banUntilDate :: "int option"

record notification =
  n_userId :: string
  n_type :: string
  n_title :: string

datatype audit_status = success | failed

record audit_log =
  a_timestamp :: int
  a_actorId :: string
  a_action :: string
  a_targetId :: string
  a_details :: "(string \<times> jsval) list"
  a_status :: audit_status
  a_ipAddress :: "string option"
  a_userAgent :: "string option"

text \<open>
  The state outside the process: the collections of the document store, the auth
  service's disabled flags, and the trace of calls made so far. The users collection
  is a list of (id, document) pairs; a query returns its matches in list order.
\<close>

record world =
  assets :: "string \<Rightarrow> asset option"
  warnings :: "warning list"
  users :: "(string \<times> user) list"
  auth_disabled :: "string \<Rightarrow> bool"
  notifications :: "notification list"
  audit_logs :: "audit_log list"
  trace :: "event list"

section \<open>Effects\<close>

text \<open>An asynchronous function: it returns or throws, and leaves a new state either way.\<close>

type_synonym 'a io = "world \<Rightarrow> (error + 'a) \<times> world"

definition io_return :: "'a \<Rightarrow> 'a io" where
  "io_return x w = (Inr x, w)"

definition io_throw :: "error \<Rightarrow> 'a io" where
  "io_throw e w = (Inl e, w)"

definition io_bind :: "'a io \<Rightarrow> ('a \<Rightarrow> 'b io) \<Rightarrow> 'b io" where
  "io_bind m f w = (case m w of (Inl e, w') \<Rightarrow> (Inl e, w') | (Inr x, w') \<Rightarrow> f x w')"

definition io_then :: "unit io \<Rightarrow> 'b io \<Rightarrow> 'b io" where
  "io_then m k = io_bind m (\<lambda>_. k)"

text \<open>\<^verbatim>\<open>try { m } catch (e) { h(e) }\<close>.\<close>

definition io_catch :: "'a io \<Rightarrow> (error \<Rightarrow> 'a io) \<Rightarrow> 'a io" where
  "io_catch m h w = (case m w of (Inl e, w') \<Rightarrow> h e w' | (Inr x, w') \<Rightarrow> (Inr x, w'))"

text \<open>\<^verbatim>\<open>try { await m } catch (e) { console.error(...) }\<close>: the error is logged and dropped.\<close>

definition io_swallow :: "'a io \<Rightarrow> unit io" where
  "io_swallow m w = (case m w of (r, w') \<Rightarrow> (Inr (), w'))"

text \<open>
  One call to a collaborator: the call is recorded; it throws when the environment says
  so, and otherwise has its effect on the state.
\<close>

definition perform :: "env \<Rightarrow> event \<Rightarrow> (world \<Rightarrow> world) \<Rightarrow> unit io" where
  "perform env ev effect w =
     (let w1 = w\<lparr>trace := trace w @ [ev]\<rparr>
      in if throws env (trace w) ev then (Inl (CallFailed ev), w1) else (Inr (), effect w1))"

text \<open>\<^verbatim>\<open>snap.ref.update({status: st, ...})\<close>: fails when the document does not exist.\<close>

definition update_asset :: "env \<Rightarrow> string \<Rightarrow> string \<Rightarrow> (asset \<Rightarrow> asset) \<Rightarrow> unit io" where
  "update_asset env assetId st patch w =
     (let ev = EvAssetUpdate assetId st; w1 = w\<lparr>trace := trace w @ [ev]\<rparr>
      in if throws env (trace w) ev then (Inl (CallFailed ev), w1)
         else (case assets w assetId of
                 None \<Rightarrow> (Inl (NotFound ev), w1)
               | Some a \<Rightarrow> (Inr (), w1\<lparr>assets := (assets w)(assetId \<mapsto> patch a)\<rparr>)))"

text \<open>\<^verbatim>\<open>db.collection('users').doc(userId).update({isBanned: b, ...})\<close>.\<close>

definition update_user :: "env \<Rightarrow> string \<Rightarrow> bool \<Rightarrow> (user \<Rightarrow> user) \<Rightarrow> unit io" where
  "update_user env userId b patch w =
     (let ev = EvUserUpdate userId b; w1 = w\<lparr>trace := trace w @ [ev]\<rparr>
      in if throws env (trace w) ev then (Inl (CallFailed ev), w1)
         else (case map_of (users w) userId of
                 None \<Rightarrow> (Inl (NotFound ev), w1)
               | Some u \<Rightarrow>
                   (Inr (), w1\<lparr>users :=
                      map (\<lambda>(k, u). if k = userId then (k, patch u) else (k, u)) (users w)\<rparr>)))"

section \<open>Audit trail: \<^verbatim>\<open>logAuditAction\<close>\<close>

text \<open>
  \<^verbatim>\<open>logAuditAction(actorId, action, targetId, isSensitive, details, ipAddress, userAgent)\<close>.
  The whole body is inside \<^verbatim>\<open>try\<close>; the handler returns the sentinel. An absent
  \<^verbatim>\<open>details\<close> is the empty bag. \<open>now\<close> is the clock reading of the invocation.
\<close>

definition logAuditAction ::
  "env \<Rightarrow> int \<Rightarrow> string \<Rightarrow> string \<Rightarrow> string \<Rightarrow> bool \<Rightarrow> (string \<times> jsval) list
     \<Rightarrow> string option \<Rightarrow> string option \<Rightarrow> string io" where
  "logAuditAction env now actorId action targetId isSensitive details ipAddress userAgent =
     io_catch
       (\<lambda>w.
          (let auditLog =
                 \<lparr>a_timestamp = now, a_actorId = actorId, a_action = action,
                  a_targetId = targetId, a_details = details, a_status = success,
                  a_ipAddress = (if isSensitive then ipAddress else None),
                  a_userAgent = (if isSensitive then userAgent else None)\<rparr>
           in io_bind
                (perform env (EvAuditAdd actorId action targetId)
                   (\<lambda>w'. w'\<lparr>audit_logs := audit_logs w' @ [auditLog]\<rparr>))
                (\<lambda>_. io_return (new_doc_id env (length (audit_logs w))))) w)
       (\<lambda>error. io_return ''audit_failed'')"

section \<open>Image classifier: \<^verbatim>\<open>checkImageForNSFW\<close>\<close>

record verdict =
  isNSFW :: bool
  confidence :: rat
  reason :: string

text \<open>The threshold of line 288 of \<^verbatim>\<open>server/functions/uploadHandling.ts\<close>, the literal
  0.65 read as a decimal.\<close>

definition THRESHOLD :: rat where
  "THRESHOLD = 65 / 100"

text \<open>Lines 288-298: the verdict computed from the parsed response object.\<close>

definition verdict_of_result :: "env \<Rightarrow> jsval \<Rightarrow> error + verdict" where
  "verdict_of_result env result =
     (case get_field result ''is_nsfw'' of None \<Rightarrow> Inl TypeError | Some is_nsfw \<Rightarrow>
     (case get_field result ''confidence'' of None \<Rightarrow> Inl TypeError | Some conf \<Rightarrow>
     (case get_field result ''reason'' of None \<Rightarrow> Inl TypeError | Some rsn \<Rightarrow>
     (case get_field result ''category'' of None \<Rightarrow> Inl TypeError | Some cat \<Rightarrow>
        Inr \<lparr>isNSFW = (is_nsfw = JBool True \<or> js_gt (to_number_conv env) conf THRESHOLD),
             confidence = js_number_or_zero (to_number_conv env) conf,
             reason = ''['' @ js_String (to_string_conv env) (js_or cat (JStr ''unknown''))
                      @ ''] ''
                      @ js_String (to_string_conv env) (js_or rsn (JStr ''No reason provided''))\<rparr>))))"

text \<open>Lines 195-286: the request, and the response read down to the parsed object.\<close>

definition fetch_result :: "env \<Rightarrow> string \<Rightarrow> error + jsval" where
  "fetch_result env url =
     (case image_fetch env url of
        FetchRejected \<Rightarrow> Inl NetworkError
      | FetchResolved response \<Rightarrow>
          if \<not> resp_ok response then
            (case resp_text response of
               None \<Rightarrow> Inl BodyUnreadable
             | Some errorData \<Rightarrow> Inl (OpenRouterApiError (resp_status response) errorData))
          else
            (case resp_json response of None \<Rightarrow> Inl BodyUnreadable | Some data \<Rightarrow>
            (case get_field data ''choices'' of None \<Rightarrow> Inl TypeError | Some choices \<Rightarrow>
             if \<not> truthy choices then Inl InvalidResponseFormat else
            (case get_index0 choices of None \<Rightarrow> Inl TypeError | Some choice \<Rightarrow>
             if \<not> truthy choice then Inl InvalidResponseFormat else
            (case get_field choice ''message'' of None \<Rightarrow> Inl TypeError | Some message \<Rightarrow>
             if \<not> truthy message then Inl InvalidResponseFormat else
            (case get_field message ''content'' of
               Some (JStr content) \<Rightarrow>
                 (case extract_json content of None \<Rightarrow> Inl NoJsonInResponse | Some matched \<Rightarrow>
                 (case JSON_parse env matched of None \<Rightarrow> Inl InvalidJson | Some result \<Rightarrow>
                    Inr result))
             | _ \<Rightarrow> Inl TypeError))))))"

text \<open>The body of the \<^verbatim>\<open>try\<close> block, lines 192-298.\<close>

definition image_scan :: "env \<Rightarrow> string \<Rightarrow> error + verdict" where
  "image_scan env url =
     (case fetch_result env url of
        Inl error \<Rightarrow> Inl error
      | Inr result \<Rightarrow> verdict_of_result env result)"

definition checkImageForNSFW :: "env \<Rightarrow> string \<Rightarrow> verdict io" where
  "checkImageForNSFW env url w =
     (if key_missing (OPENROUTER_API_KEY env) then (Inl ServiceUnavailable, w)
      else
        (let w1 = w\<lparr>trace := trace w @ [EvImageFetch url]\<rparr>
         in case image_scan env url of
              Inl error \<Rightarrow> (Inl (DetectionFailed error), w1)
            | Inr v \<Rightarrow> (Inr v, w1)))"

subsection \<open>The adapter of \<^verbatim>\<open>src/unnamed/part_000\<close>\<close>

record verdict_part000 =
  isNSFW0 :: bool
  confidence0 :: jsval
  reason0 :: jsval

text \<open>Lines 193-197 of \<^verbatim>\<open>part_000\<close>.\<close>

definition verdict_of_result_part000 :: "env \<Rightarrow> jsval \<Rightarrow> error + verdict_part000" where
  "verdict_of_result_part000 env result =
     (case get_field result ''is_nsfw'' of None \<Rightarrow> Inl TypeError | Some is_nsfw \<Rightarrow>
     (case get_field result ''confidence'' of None \<Rightarrow> Inl TypeError | Some conf \<Rightarrow>
     (case get_field result ''reason'' of None \<Rightarrow> Inl TypeError | Some rsn \<Rightarrow>
        Inr \<lparr>isNSFW0 = (is_nsfw = JBool True \<and> js_gt (to_number_conv env) conf (7 / 10)),
             confidence0 = js_or conf (JNum 0),
             reason0 = js_or rsn (JStr ''Unable to determine'')\<rparr>)))"

text \<open>Lines 129-191 of \<^verbatim>\<open>part_000\<close>.\<close>

definition fetch_result_part000 :: "env \<Rightarrow> string \<Rightarrow> error + jsval" where
  "fetch_result_part000 env url =
     (case image_fetch env url of
        FetchRejected \<Rightarrow> Inl NetworkError
      | FetchResolved response \<Rightarrow>
          if \<not> resp_ok response then
            (case resp_json response of
               None \<Rightarrow> Inl BodyUnreadable
             | Some error \<Rightarrow>
                 Inl (OpenRouterApiError (resp_status response) (to_string_conv env error)))
          else
            (case resp_json response of None \<Rightarrow> Inl BodyUnreadable | Some data \<Rightarrow>
            (case get_field data ''choices'' of None \<Rightarrow> Inl TypeError | Some choices \<Rightarrow>
            (case get_index0 choices of None \<Rightarrow> Inl TypeError | Some choice \<Rightarrow>
            (case get_field choice ''message'' of None \<Rightarrow> Inl TypeError | Some message \<Rightarrow>
            (case get_field message ''content'' of
               Some (JStr content) \<Rightarrow>
                 (case extract_json content of None \<Rightarrow> Inl NoJsonInResponse | Some matched \<Rightarrow>
                 (case JSON_parse env matched of None \<Rightarrow> Inl InvalidJson | Some result \<Rightarrow>
                    Inr result))
             | _ \<Rightarrow> Inl TypeError))))))"

definition image_scan_part000 :: "env \<Rightarrow> string \<Rightarrow> error + verdict_part000" where
  "image_scan_part000 env url =
     (case fetch_result_part000 env url of
        Inl error \<Rightarrow> Inl error
      | Inr result \<Rightarrow> verdict_of_result_part000 env result)"

definition checkImageForNSFW_part000 :: "env \<Rightarrow> string \<Rightarrow> verdict_part000 io" where
  "checkImageForNSFW_part000 env url w =
     (if key_missing (OPENROUTER_API_KEY env) then (Inl KeyNotConfigured, w)
      else
        (let w1 = w\<lparr>trace := trace w @ [EvImageFetch url]\<rparr>
         in case image_scan_part000 env url of
              Inl error \<Rightarrow> (Inl (DetectionFailed error), w1)
            | Inr v \<Rightarrow> (Inr v, w1)))"

section \<open>Text classifier: \<^verbatim>\<open>checkTextForNSFW\<close>\<close>

record text_verdict =
  t_isNSFW :: bool
  t_reason :: string
  t_emotion :: string
  t_sentiment :: jsval

definition nsfwEmotions :: "string list" where
  "nsfwEmotions = [''anger'', ''hatred'', ''disgust'', ''obscenity'', ''explicit'', ''sexual'',
     ''profanity'', ''slur'', ''abuse'', ''harassment'']"

text \<open>The alternatives of the case-insensitive pattern of line 383.\<close>

definition nsfwPatterns :: "string list" where
  "nsfwPatterns = [''sex'', ''porn'', ''xxx'', ''nude'', ''dick'', ''pussy'', ''cock'', ''ass'',
     ''shit'', ''fuck'', ''damn'', ''cunt'', ''whore'', ''slut'', ''rape'', ''incest'']"

definition degraded :: "string \<Rightarrow> text_verdict" where
  "degraded r = \<lparr>t_isNSFW = False, t_reason = r, t_emotion = [], t_sentiment = JStr []\<rparr>"

text \<open>The body of the \<^verbatim>\<open>try\<close> block, lines 330-397.\<close>

definition text_scan :: "env \<Rightarrow> string \<Rightarrow> string \<Rightarrow> error + text_verdict" where
  "text_scan env text fieldName =
     (case text_fetch env text of
        FetchRejected \<Rightarrow> Inl NetworkError
      | FetchResolved response \<Rightarrow>
          if \<not> resp_ok response then
            (case resp_text response of
               None \<Rightarrow> Inl BodyUnreadable
             | Some errorData \<Rightarrow> Inr (degraded ''Text check API error''))
          else
            (case resp_json response of None \<Rightarrow> Inl BodyUnreadable | Some data \<Rightarrow>
            (case get_field data ''sentiment'' of None \<Rightarrow> Inl TypeError | Some sent \<Rightarrow>
             if \<not> truthy sent then Inr (degraded ''No sentiment data'') else
            (case get_field sent ''emotion'' of None \<Rightarrow> Inl TypeError | Some em \<Rightarrow>
            (case get_field sent ''sentiment'' of None \<Rightarrow> Inl TypeError | Some sm \<Rightarrow>
            (case js_or em (JStr []) of
               JStr emotion \<Rightarrow>
                 (let isEmotionNSFW =
                        list_ex (\<lambda>e. includes_str (toLowerCase emotion) e
                                      \<or> toLowerCase emotion = e) nsfwEmotions;
                      textHasNSFWPattern =
                        list_ex (\<lambda>p. includes_str (toLowerCase text) p) nsfwPatterns;
                      finalIsNSFW = (isEmotionNSFW \<or> textHasNSFWPattern)
                  in Inr \<lparr>t_isNSFW = finalIsNSFW,
                          t_reason = (if finalIsNSFW then fieldName @ '': Inappropriate content''
                                      else fieldName @ '': Safe''),
                          t_emotion = emotion,
                          t_sentiment = js_or sm (JStr [])\<rparr>)
             | _ \<Rightarrow> Inl TypeError))))))"

definition checkTextForNSFW :: "env \<Rightarrow> string \<Rightarrow> string \<Rightarrow> text_verdict io" where
  "checkTextForNSFW env text fieldName w =
     (if key_missing (JIGSAWSTACK_API_KEY env) then (Inr (degraded ''Text check skipped''), w)
      else if text = [] \<or> trim text = [] then (Inr (degraded ''Empty text''), w)
      else
        (let w1 = w\<lparr>trace := trace w @ [EvTextFetch text]\<rparr>
         in case text_scan env text fieldName of
              Inl error \<Rightarrow> (Inr (degraded ''Text check failed''), w1)
            | Inr v \<Rightarrow> (Inr v, w1)))"

section \<open>Strike ledger: \<^verbatim>\<open>createWarning\<close>\<close>

fun reason_name :: "warning_reason \<Rightarrow> string" where
  "reason_name upload_abuse = ''upload_abuse''"
| "reason_name spam = ''spam''"
| "reason_name harassment = ''harassment''"
| "reason_name rule_violation = ''rule_violation''"

text \<open>The three-filter query on the warnings collection (lines 417-422).\<close>

definition active_warnings :: "string \<Rightarrow> warning_reason \<Rightarrow> warning list \<Rightarrow> warning list" where
  "active_warnings userId r ws =
     filter (\<lambda>x. w_userId x = userId \<and> w_reason x = r \<and> w_isActive x) ws"

definition query_warnings :: "env \<Rightarrow> string \<Rightarrow> warning_reason \<Rightarrow> warning list io" where
  "query_warnings env userId r w =
     (let ev = EvWarningsQuery userId r; w1 = w\<lparr>trace := trace w @ [ev]\<rparr>
      in if throws env (trace w) ev then (Inl (CallFailed ev), w1)
         else (Inr (active_warnings userId r (warnings w)), w1))"

definition add_notification :: "env \<Rightarrow> string \<Rightarrow> string \<Rightarrow> string \<Rightarrow> unit io" where
  "add_notification env userId ty title =
     perform env (EvNotificationAdd userId ty)
       (\<lambda>w. w\<lparr>notifications :=
                notifications w @ [\<lparr>n_userId = userId, n_type = ty, n_title = title\<rparr>]\<rparr>)"

definition auth_updateUser :: "env \<Rightarrow> string \<Rightarrow> bool \<Rightarrow> unit io" where
  "auth_updateUser env userId disabled =
     perform env (EvAuthUpdate userId disabled)
       (\<lambda>w. w\<lparr>auth_disabled := (auth_disabled w)(userId := disabled)\<rparr>)"

text \<open>Seven days in milliseconds, as line 441 computes it.\<close>

definition BAN_MS :: int where
  "BAN_MS = 7 * 24 * 60 * 60 * 1000"

text \<open>The fields written to the user's document by the automatic ban, lines 445-450.\<close>

definition ban_patch :: "int \<Rightarrow> warning_reason \<Rightarrow> user \<Rightarrow> user" where
  "ban_patch now r u =
     u\<lparr>isBanned := True,
       banReason := Some (''Automatic 7-day ban: 3 warnings for '' @ reason_name r),
       banDate := Some now,
       banUntilDate := Some (now + BAN_MS)\<rparr>"

text \<open>The warning document created at lines 427-435.\<close>

definition new_warning ::
  "int \<Rightarrow> string \<Rightarrow> warning_reason \<Rightarrow> string \<Rightarrow> string option \<Rightarrow> warning" where
  "new_warning now userId r message evidence =
     \<lparr>w_userId = userId, w_reason = r, w_message = message,
      w_evidence = (case evidence of None \<Rightarrow> None
                    | Some e \<Rightarrow> if e = [] then None else Some e),
      w_isActive = True, w_createdAt = now\<rparr>"

text \<open>
  \<^verbatim>\<open>createWarning(userId, reason, message, evidence)\<close>, lines 409-493. The outer handler
  rethrows, so an error of any awaited call leaves the function. \<open>now\<close> is
  \<^verbatim>\<open>Date.now()\<close>.
\<close>

definition createWarning ::
  "env \<Rightarrow> int \<Rightarrow> string \<Rightarrow> warning_reason \<Rightarrow> string \<Rightarrow> string option \<Rightarrow> unit io" where
  "createWarning env now userId r message evidence =
     io_bind (query_warnings env userId r) (\<lambda>existingWarnings.
       (let warningCount = length existingWarnings + 1
        in io_then
             (perform env (EvWarningsAdd userId r)
                (\<lambda>w. w\<lparr>warnings :=
                   warnings w @ [new_warning now userId r message evidence]\<rparr>))
             (if warningCount \<ge> 3 then
                io_then
                  (update_user env userId True (ban_patch now r))
                  (io_then (auth_updateUser env userId True)
                  (io_then (add_notification env userId ''ban'' ''Account Temporarily Suspended'')
                  (io_bind
                     (logAuditAction env now ''SYSTEM'' ''AUTO_BAN_TRIGGERED'' userId True
                        [(''reason'', JStr (reason_name r)), (''warningCount'', JNum 3),
                         (''banDays'', JNum 7)] None None)
                     (\<lambda>_. io_return ()))))
              else add_notification env userId ''warning'' ''Account Warning'')))"

section \<open>Moderation pipeline: \<^verbatim>\<open>onAssetUploaded\<close>\<close>

definition reject_patch :: "int \<Rightarrow> rejection \<Rightarrow> asset \<Rightarrow> asset" where
  "reject_patch now why a =
     a\<lparr>status := ''rejected'', rejectionReason := Some why, rejectionDate := Some now\<rparr>"

definition reject_nsfw_patch :: "int \<Rightarrow> verdict \<Rightarrow> asset \<Rightarrow> asset" where
  "reject_nsfw_patch now v a =
     a\<lparr>status := ''rejected'', rejectionReason := Some (ContentViolation (reason v)),
       rejectionDate := Some now, nsfwConfidence := Some (confidence v),
       nsfwReason := Some (reason v)\<rparr>"

definition publish_patch :: "int \<Rightarrow> verdict \<Rightarrow> asset \<Rightarrow> asset" where
  "publish_patch now v a =
     a\<lparr>status := ''published'', publishedDate := Some now, nsfwChecked := True,
       nsfwConfidence := Some (confidence v)\<rparr>"

definition warning_message :: "env \<Rightarrow> asset \<Rightarrow> verdict \<Rightarrow> string" where
  "warning_message env a v =
     ''Your upload \"'' @ name a
       @ ''\" was rejected for containing inappropriate content. Confidence: ''
       @ toFixed1 env (confidence v * 100) @ ''%. Reason: '' @ reason v"

text \<open>
  The handler of lines 24-164. \<open>a\<close> is \<^verbatim>\<open>snap.data()\<close>, the document as the trigger
  delivers it; \<open>assetId\<close> names the stored document that \<^verbatim>\<open>snap.ref.update\<close> writes.
  The source calls the image classifier and no other.
\<close>

definition onAssetUploaded :: "env \<Rightarrow> int \<Rightarrow> string \<Rightarrow> asset \<Rightarrow> unit io" where
  "onAssetUploaded env now assetId a =
     (if status a \<noteq> ''uploading'' then io_return ()
      else
        io_catch
          (case imageUrl a of
             None \<Rightarrow> update_asset env assetId ''rejected'' (reject_patch now NoImageProvided)
           | Some url \<Rightarrow>
               if url = [] then
                 update_asset env assetId ''rejected'' (reject_patch now NoImageProvided)
               else if \<not> valid_URL env url then
                 update_asset env assetId ''rejected'' (reject_patch now InvalidImageUrl)
               else
                 io_bind (checkImageForNSFW env url) (\<lambda>nsfwResult.
                   if isNSFW nsfwResult then
                     io_then
                       (update_asset env assetId ''rejected'' (reject_nsfw_patch now nsfwResult))
                       (io_then
                          (io_swallow
                             (createWarning env now (authorId a) upload_abuse
                                (warning_message env a nsfwResult) (Some url)))
                          (io_swallow
                             (logAuditAction env now (authorId a) ''UPLOAD_REJECTED_NSFW'' assetId
                                True
                                [(''assetName'', JStr (name a)),
                                 (''confidence'', JNum (confidence nsfwResult)),
                                 (''reason'', JStr (reason nsfwResult))] None None)))
                   else
                     io_then
                       (update_asset env assetId ''published'' (publish_patch now nsfwResult))
                       (io_swallow
                          (logAuditAction env now (authorId a) ''ASSET_PUBLISHED'' assetId False
                             [(''assetName'', JStr (name a)),
                              (''nsfwConfidence'', JNum (confidence nsfwResult))] None None))))
          (\<lambda>error.
             io_swallow
               (update_asset env assetId ''rejected'' (reject_patch now (VerificationFailed error)))))"

section \<open>Ban expiry sweep: \<^verbatim>\<open>checkExpiredBans\<close>\<close>

definition ban_expired :: "int \<Rightarrow> user \<Rightarrow> bool" where
  "ban_expired now u =
     (isBanned u \<and> (case banUntilDate u of None \<Rightarrow> False | Some t \<Rightarrow> t < now))"

definition query_expired :: "env \<Rightarrow> int \<Rightarrow> (string \<times> user) list io" where
  "query_expired env now w =
     (let ev = EvUsersQueryExpired; w1 = w\<lparr>trace := trace w @ [ev]\<rparr>
      in if throws env (trace w) ev then (Inl (CallFailed ev), w1)
         else (Inr (filter (\<lambda>(k, u). ban_expired now u) (users w)), w1))"

definition unban_patch :: "user \<Rightarrow> user" where
  "unban_patch u = u\<lparr>isBanned := False, banReason := None, banDate := None, banUntilDate := None\<rparr>"

text \<open>The body of the \<^verbatim>\<open>for\<close> loop for one document, lines 516-544.\<close>

definition restore_user :: "env \<Rightarrow> int \<Rightarrow> string \<Rightarrow> unit io" where
  "restore_user env now userId =
     io_then (update_user env userId False unban_patch)
     (io_then (auth_updateUser env userId False)
     (io_then (add_notification env userId ''unbanned'' ''Account Restored'')
     (io_bind
        (logAuditAction env now ''SYSTEM'' ''BAN_EXPIRED'' userId False
           [(''autoRestored'', JBool True)] None None)
        (\<lambda>_. io_return ()))))"

text \<open>The loop over the query's documents; the result is \<^verbatim>\<open>unbannedCount\<close>.\<close>

fun restore_loop :: "env \<Rightarrow> int \<Rightarrow> (string \<times> user) list \<Rightarrow> nat \<Rightarrow> nat io" where
  "restore_loop env now [] unbannedCount = io_return unbannedCount"
| "restore_loop env now (doc # docs) unbannedCount =
     io_then (restore_user env now (fst doc))
       (restore_loop env now docs (unbannedCount + 1))"

text \<open>The scheduled job: one \<^verbatim>\<open>try\<close> around the query and the whole loop.\<close>

definition checkExpiredBans :: "env \<Rightarrow> int \<Rightarrow> unit io" where
  "checkExpiredBans env now =
     io_swallow (io_bind (query_expired env now) (\<lambda>bannedUsers. restore_loop env now bannedUsers 0))"

section \<open>Observations on a run\<close>

text \<open>The audit entries recorded as failed.\<close>

definition failed_entries :: "world \<Rightarrow> audit_log list" where
  "failed_entries w = filter (\<lambda>x. a_status x = failed) (audit_logs w)"

text \<open>
  Kinds of call in a trace. A \<^verbatim>\<open>createWarning\<close> call opens with its query of the warnings
  collection, and a \<^verbatim>\<open>logAuditAction\<close> call makes one append to the audit log, so these
  events count the calls.
\<close>

fun is_asset_update :: "event \<Rightarrow> bool" where
  "is_asset_update (EvAssetUpdate i s) = True"
| "is_asset_update e = False"

fun is_text_fetch :: "event \<Rightarrow> bool" where
  "is_text_fetch (EvTextFetch t) = True"
| "is_text_fetch e = False"

fun is_createWarning_call :: "event \<Rightarrow> bool" where
  "is_createWarning_call (EvWarningsQuery u r) = True"
| "is_createWarning_call e = False"

fun is_audit_append :: "event \<Rightarrow> bool" where
  "is_audit_append (EvAuditAdd actor action target) = True"
| "is_audit_append e = False"

fun is_rejection_audit :: "event \<Rightarrow> bool" where
  "is_rejection_audit (EvAuditAdd actor action target) = (action = ''UPLOAD_REJECTED_NSFW'')"
| "is_rejection_audit e = False"

text \<open>The calls that concern one user: writes to the user, the auth service, the
  notification sink, and audit entries about the user.\<close>

fun concerns :: "string \<Rightarrow> event \<Rightarrow> bool" where
  "concerns k (EvUserUpdate u b) = (u = k)"
| "concerns k (EvAuthUpdate u b) = (u = k)"
| "concerns k (EvNotificationAdd u t) = (u = k)"
| "concerns k (EvAuditAdd actor action target) = (target = k)"
| "concerns k e = False"

definition stored_status :: "world \<Rightarrow> string \<Rightarrow> string option" where
  "stored_status w assetId = map_option status (assets w assetId)"

text \<open>The calls of each kind made so far, in order.\<close>

definition asset_updates :: "world \<Rightarrow> event list" where
  "asset_updates w = filter is_asset_update (trace w)"

definition text_fetches :: "world \<Rightarrow> event list" where
  "text_fetches w = filter is_text_fetch (trace w)"

definition warning_calls :: "world \<Rightarrow> event list" where
  "warning_calls w = filter is_createWarning_call (trace w)"

definition audit_appends :: "world \<Rightarrow> event list" where
  "audit_appends w = filter is_audit_append (trace w)"

definition rejection_audits :: "world \<Rightarrow> event list" where
  "rejection_audits w = filter is_rejection_audit (trace w)"

definition calls_about :: "string \<Rightarrow> world \<Rightarrow> event list" where
  "calls_about k w = filter (concerns k) (trace w)"

text \<open>What the store and the auth service hold about one user.\<close>

definition account :: "string \<Rightarrow> world \<Rightarrow> user option \<times> bool" where
  "account k w = (map_of (users w) k, auth_disabled w k)"

text \<open>
  The first call that a run on a snapshot with status \<open>uploading\<close> makes: the update to
  \<open>rejected\<close> when the image URL is missing or invalid or the image credential is not
  configured, the request to the image service otherwise.
\<close>

definition first_call :: "env \<Rightarrow> string \<Rightarrow> asset \<Rightarrow> event" where
  "first_call env assetId a =
     (case imageUrl a of
        None \<Rightarrow> EvAssetUpdate assetId ''rejected''
      | Some url \<Rightarrow>
          if url = [] \<or> \<not> valid_URL env url \<or> key_missing (OPENROUTER_API_KEY env)
          then EvAssetUpdate assetId ''rejected''
          else EvImageFetch url)"

section \<open>Scenarios\<close>

text \<open>Concrete environments and states on which the theorems below are exercised.\<close>

definition chat_response :: "string \<Rightarrow> http_response" where
  "chat_response content =
     \<lparr>resp_ok = True, resp_status = 200, resp_text = Some content,
      resp_json = Some (JObj [(''choices'',
         JArr [JObj [(''message'', JObj [(''content'', JStr content)])]])])\<rparr>"

definition classifier_result :: "bool \<Rightarrow> rat \<Rightarrow> jsval" where
  "classifier_result flag conf =
     JObj [(''is_nsfw'', JBool flag), (''confidence'', JNum conf),
           (''category'', JStr ''safe''), (''reason'', JStr ''checked'')]"

definition sentiment_response :: "string \<Rightarrow> http_response" where
  "sentiment_response emotion =
     \<lparr>resp_ok = True, resp_status = 200, resp_text = None,
      resp_json = Some (JObj [(''success'', JBool True),
         (''sentiment'', JObj [(''emotion'', JStr emotion), (''sentiment'', JStr ''neutral''),
                               (''score'', JNum (1 / 2))])])\<rparr>"

text \<open>Both keys configured, no collaborator fault; the image service answers with a JSON
  text that parses to the given object, the sentiment service with the given emotion.\<close>

definition scenario_env :: "jsval \<Rightarrow> string \<Rightarrow> env" where
  "scenario_env result emotion =
     \<lparr>OPENROUTER_API_KEY = Some ''or-key'', JIGSAWSTACK_API_KEY = Some ''js-key'',
      image_fetch = (\<lambda>url. FetchResolved (chat_response ''Verdict: {json} done'')),
      text_fetch = (\<lambda>text. FetchResolved (sentiment_response emotion)),
      JSON_parse = (\<lambda>s. if s = ''{json}'' then Some result else None),
      valid_URL = (\<lambda>url. starts_with url ''https://''),
      to_number_conv = (\<lambda>v. None),
      to_string_conv = (\<lambda>v. ''[value]''),
      toFixed1 = (\<lambda>x. ''n''),
      new_doc_id = (\<lambda>n. ''doc''),
      throws = (\<lambda>history ev. False)\<rparr>"

definition scenario_asset :: "string \<Rightarrow> string \<Rightarrow> asset" where
  "scenario_asset st nm =
     \<lparr>status = st, authorId = ''u1'', name = nm, description = ''High-quality camera'',
      tags = [''camera''], imageUrl = Some ''https://valid/img.png'', rejectionReason = None,
      rejectionDate = None, publishedDate = None, nsfwChecked = False, nsfwConfidence = None,
      nsfwReason = None\<rparr>"

definition clean_user :: user where
  "clean_user = \<lparr>isBanned = False, banReason = None, banDate = None, banUntilDate = None\<rparr>"

definition banned_until :: "int \<Rightarrow> user" where
  "banned_until t =
     \<lparr>isBanned = True, banReason = Some ''Automatic 7-day ban: 3 warnings for spam'',
      banDate = Some 0, banUntilDate = Some t\<rparr>"

definition scenario_world :: "asset \<Rightarrow> (string \<times> user) list \<Rightarrow> world" where
  "scenario_world a us =
     \<lparr>assets = [''a1'' \<mapsto> a], warnings = [], users = us,
      auth_disabled = (\<lambda>k. case map_of us k of None \<Rightarrow> False | Some u \<Rightarrow> isBanned u),
      notifications = [], audit_logs = [], trace = []\<rparr>"

text \<open>The audit store refuses every append.\<close>

definition audit_down :: "env \<Rightarrow> env" where
  "audit_down env = env\<lparr>throws := (\<lambda>history ev. is_audit_append ev)\<rparr>"

text \<open>The sentiment service answers 503.\<close>

definition text_service_down :: "env \<Rightarrow> env" where
  "text_service_down env =
     env\<lparr>text_fetch := (\<lambda>text. FetchResolved
        \<lparr>resp_ok = False, resp_status = 503, resp_text = Some ''unavailable'',
         resp_json = None\<rparr>)\<rparr>"

text \<open>The image credential is not configured.\<close>

definition image_key_unset :: "env \<Rightarrow> env" where
  "image_key_unset env = env\<lparr>OPENROUTER_API_KEY := None\<rparr>"

text \<open>The auth service refuses to re-enable one user.\<close>

definition auth_refuses :: "string \<Rightarrow> env \<Rightarrow> env" where
  "auth_refuses k env = env\<lparr>throws := (\<lambda>history ev. ev = EvAuthUpdate k False)\<rparr>"

text \<open>Two users whose bans have run out, in the order the sweep meets them.\<close>

definition two_expired :: world where
  "two_expired =
     scenario_world (scenario_asset ''published'' ''Camera Rig'')
       [(''u1'', banned_until 1000), (''u2'', banned_until 2000)]"

section \<open>Basic facts\<close>

lemmas io_defs = io_return_def io_throw_def io_bind_def io_then_def io_catch_def io_swallow_def

text \<open>The two outcomes of \<^verbatim>\<open>logAuditAction\<close>: the append is refused, or it is made.\<close>

lemma logAuditAction_cases:
  "logAuditAction env now actorId action targetId sens details ip ua w =
     (if throws env (trace w) (EvAuditAdd actorId action targetId)
      then (Inr ''audit_failed'', w\<lparr>trace := trace w @ [EvAuditAdd actorId action targetId]\<rparr>)
      else (Inr (new_doc_id env (length (audit_logs w))),
            w\<lparr>trace := trace w @ [EvAuditAdd actorId action targetId],
              audit_logs := audit_logs w @
                [\<lparr>a_timestamp = now, a_actorId = actorId, a_action = action,
                  a_targetId = targetId, a_details = details, a_status = success,
                  a_ipAddress = (if sens then ip else None),
                  a_userAgent = (if sens then ua else None)\<rparr>]\<rparr>))"
  by (simp add: logAuditAction_def io_defs perform_def Let_def)

text \<open>The verdict of the image adapter on a response that parsed to an object.\<close>

lemma checkImageForNSFW_parsed:
  assumes "\<not> key_missing (OPENROUTER_API_KEY env)" and "fetch_result env url = Inr (JObj kvs)"
  shows "checkImageForNSFW env url w =
     (Inr \<lparr>isNSFW = (get_field (JObj kvs) ''is_nsfw'' = Some (JBool True)
                    \<or> js_gt (to_number_conv env) (the (get_field (JObj kvs) ''confidence''))
                         THRESHOLD),
           confidence =
             js_number_or_zero (to_number_conv env) (the (get_field (JObj kvs) ''confidence'')),
           reason = ''[''
             @ js_String (to_string_conv env)
                 (js_or (the (get_field (JObj kvs) ''category'')) (JStr ''unknown''))
             @ ''] ''
             @ js_String (to_string_conv env)
                 (js_or (the (get_field (JObj kvs) ''reason'')) (JStr ''No reason provided''))\<rparr>,
      w\<lparr>trace := trace w @ [EvImageFetch url]\<rparr>)"
  using assms
  by (simp add: checkImageForNSFW_def image_scan_def verdict_of_result_def Let_def
           split: option.splits)

section \<open>What a computation leaves alone\<close>

text \<open>A projection \<open>f\<close> of the state that every step of a computation preserves is
  preserved by the computation, however its steps fail.\<close>

lemma keeps_bind:
  assumes "\<And>w. f (snd (m w)) = f w" and "\<And>x w. f (snd (g x w)) = f w"
  shows "f (snd (io_bind m g w)) = f w"
proof (cases "m w")
  case (Pair r w')
  then have "f w' = f w" using assms(1)[of w] by simp
  then show ?thesis using Pair assms(2) by (cases r) (simp_all add: io_bind_def)
qed

lemma keeps_then:
  assumes "\<And>w. f (snd (m w)) = f w" and "\<And>w. f (snd (k w)) = f w"
  shows "f (snd (io_then m k w)) = f w"
  unfolding io_then_def using assms by (rule keeps_bind)

lemma keeps_catch:
  assumes "\<And>w. f (snd (m w)) = f w" and "\<And>e w. f (snd (h e w)) = f w"
  shows "f (snd (io_catch m h w)) = f w"
proof (cases "m w")
  case (Pair r w')
  then have "f w' = f w" using assms(1)[of w] by simp
  then show ?thesis using Pair assms(2) by (cases r) (simp_all add: io_catch_def)
qed

lemma keeps_swallow:
  assumes "\<And>w. f (snd (m w)) = f w"
  shows "f (snd (io_swallow m w)) = f w"
  using assms[of w] by (cases "m w") (simp add: io_swallow_def)

lemma keeps_if:
  assumes "c \<Longrightarrow> f (snd (m w)) = f w" and "\<not> c \<Longrightarrow> f (snd (k w)) = f w"
  shows "f (snd ((if c then m else k) w)) = f w"
  using assms by simp

lemma keeps_return: "f (snd (io_return x w)) = f w"
  by (simp add: io_return_def)

lemma keeps_perform:
  assumes "\<And>w. f (w\<lparr>trace := trace w @ [ev]\<rparr>) = f w" and "\<And>w. f (effect w) = f w"
  shows "f (snd (perform env ev effect w)) = f w"
  using assms by (simp add: perform_def Let_def)

lemmas keeps_intros = keeps_bind keeps_then keeps_catch keeps_swallow keeps_if keeps_return

text \<open>The collaborator calls, for a projection that ignores what they record and write.\<close>

lemma keeps_update_user:
  assumes "\<And>w. f (w\<lparr>trace := trace w @ [EvUserUpdate u b]\<rparr>) = f w"
      and "\<And>w us. f (w\<lparr>users := us\<rparr>) = f w"
  shows "f (snd (update_user env u b p w)) = f w"
  by (simp add: update_user_def Let_def assms split: option.splits)

lemma keeps_update_asset:
  assumes "\<And>w. f (w\<lparr>trace := trace w @ [EvAssetUpdate i st]\<rparr>) = f w"
      and "\<And>w g. f (w\<lparr>assets := g\<rparr>) = f w"
  shows "f (snd (update_asset env i st p w)) = f w"
  by (simp add: update_asset_def Let_def assms split: option.splits)

lemma keeps_query_warnings:
  assumes "\<And>w. f (w\<lparr>trace := trace w @ [EvWarningsQuery u r]\<rparr>) = f w"
  shows "f (snd (query_warnings env u r w)) = f w"
  by (simp add: query_warnings_def Let_def assms)

lemma keeps_query_expired:
  assumes "\<And>w. f (w\<lparr>trace := trace w @ [EvUsersQueryExpired]\<rparr>) = f w"
  shows "f (snd (query_expired env now w)) = f w"
  by (simp add: query_expired_def Let_def assms)

lemma keeps_checkImage:
  assumes "\<And>w. f (w\<lparr>trace := trace w @ [EvImageFetch url]\<rparr>) = f w"
  shows "f (snd (checkImageForNSFW env url w)) = f w"
  by (simp add: checkImageForNSFW_def Let_def assms split: sum.splits)

lemma keeps_logAuditAction:
  assumes "\<And>w. f (w\<lparr>trace := trace w @ [EvAuditAdd actor action target]\<rparr>) = f w"
      and "\<And>w l. f (w\<lparr>audit_logs := l\<rparr>) = f w"
  shows "f (snd (logAuditAction env now actor action target sens d ip ua w)) = f w"
  by (simp add: logAuditAction_cases assms)

lemma keeps_auth:
  assumes "\<And>w. f (w\<lparr>trace := trace w @ [EvAuthUpdate u b]\<rparr>) = f w"
      and "\<And>w g. f (w\<lparr>auth_disabled := g\<rparr>) = f w"
  shows "f (snd (auth_updateUser env u b w)) = f w"
  unfolding auth_updateUser_def by (rule keeps_perform) (simp_all add: assms)

lemma keeps_notify:
  assumes "\<And>w. f (w\<lparr>trace := trace w @ [EvNotificationAdd u ty]\<rparr>) = f w"
      and "\<And>w l. f (w\<lparr>notifications := l\<rparr>) = f w"
  shows "f (snd (add_notification env u ty title w)) = f w"
  unfolding add_notification_def by (rule keeps_perform) (simp_all add: assms)

lemmas keeps_prims = keeps_update_user keeps_update_asset keeps_query_warnings
  keeps_query_expired keeps_checkImage keeps_logAuditAction keeps_auth keeps_notify keeps_perform

lemma keeps_option:
  assumes "x = None \<Longrightarrow> f (snd (m w)) = f w"
      and "\<And>y. x = Some y \<Longrightarrow> f (snd (k y w)) = f w"
  shows "f (snd ((case x of None \<Rightarrow> m | Some y \<Rightarrow> k y) w)) = f w"
  using assms by (cases x) simp_all

lemma after_bind:
  assumes "\<And>x w'. f (snd (g x w')) = f w'"
  shows "f (snd (io_bind m g w)) = f (snd (m w))"
  using assms by (cases "m w") (auto simp: io_bind_def split: sum.splits)

section \<open>The scenarios' image service\<close>

lemma scenario_fetch_result:
  "fetch_result (scenario_env r em) url = Inr r"
  by (simp add: fetch_result_def scenario_env_def chat_response_def extract_json_def)

lemma fetch_result_part000_of_current:
  assumes "fetch_result env url = Inr r"
  shows "fetch_result_part000 env url = Inr r"
  using assms
  by (auto simp: fetch_result_def fetch_result_part000_def
           split: fetch_outcome.splits if_splits option.splits jsval.splits)

lemma js_gt_mono: "js_gt conv v a \<Longrightarrow> b \<le> a \<Longrightarrow> js_gt conv v b"
  by (auto simp: js_gt_def split: option.splits)

lemma scenario_checkImage:
  "checkImageForNSFW (scenario_env (classifier_result flag c) em) url w =
     (Inr \<lparr>isNSFW = (flag \<or> 65 / 100 < c), confidence = c, reason = ''[safe] checked''\<rparr>,
      w\<lparr>trace := trace w @ [EvImageFetch url]\<rparr>)"
proof -
  have k: "\<not> key_missing (OPENROUTER_API_KEY (scenario_env (classifier_result flag c) em))"
    by (simp add: key_missing_def scenario_env_def)
  have f: "fetch_result (scenario_env (classifier_result flag c) em) url =
        Inr (JObj [(''is_nsfw'', JBool flag), (''confidence'', JNum c),
           (''category'', JStr ''safe''), (''reason'', JStr ''checked'')])"
    by (simp add: scenario_fetch_result classifier_result_def)
  show ?thesis
    unfolding checkImageForNSFW_parsed [OF k f]
    by (simp add: js_gt_def js_number_or_zero_def js_or_def THRESHOLD_def)
qed

lemma valid_URL_scenario: "valid_URL (scenario_env r em) url = starts_with url ''https://''"
  by (simp add: scenario_env_def)

lemma throws_scenario: "throws (scenario_env r em) h ev = False"
  by (simp add: scenario_env_def)

section \<open>The decision rule of the image adapter\<close>

text \<open>
  Claim C4. Whenever the credential is configured and the response of the image service
  parses to an object, \<^verbatim>\<open>checkImageForNSFW\<close> returns a verdict, and the verdict is flagged
  exactly when the object's \<open>is_nsfw\<close> is the boolean true or its \<open>confidence\<close> compares
  greater than the threshold. For a numeric confidence \<open>c\<close> that is \<open>c > 0.65\<close>. So
  \<open>{is_nsfw: false, confidence: 0.8}\<close> is flagged and \<open>{is_nsfw: false, confidence: 0.3}\<close>
  is not.
\<close>

theorem image_verdict_or_rule:
  assumes "\<not> key_missing (OPENROUTER_API_KEY env)"
      and "fetch_result env url = Inr (JObj kvs)"
  shows "\<exists>v. fst (checkImageForNSFW env url w) = Inr v
           \<and> (isNSFW v \<longleftrightarrow>
                 map_of kvs ''is_nsfw'' = Some (JBool True)
                 \<or> (\<exists>c. map_of kvs ''confidence'' = Some c
                          \<and> js_gt (to_number_conv env) c THRESHOLD))
           \<and> (\<forall>c. map_of kvs ''confidence'' = Some (JNum c) \<longrightarrow>
                 (isNSFW v \<longleftrightarrow> map_of kvs ''is_nsfw'' = Some (JBool True) \<or> c > 65 / 100))
           \<and> (map_of kvs ''is_nsfw'' = Some (JBool False)
                \<and> map_of kvs ''confidence'' = Some (JNum (8 / 10)) \<longrightarrow> isNSFW v)
           \<and> (map_of kvs ''is_nsfw'' = Some (JBool False)
                \<and> map_of kvs ''confidence'' = Some (JNum (3 / 10)) \<longrightarrow> \<not> isNSFW v)"
  using checkImageForNSFW_parsed [OF assms, of w]
  by (auto simp: js_gt_def THRESHOLD_def split: option.splits)

theorem image_verdict_or_rule_witness:
  "\<not> key_missing (OPENROUTER_API_KEY (scenario_env (classifier_result False (8 / 10)) ''neutral''))
   \<and> fetch_result (scenario_env (classifier_result False (8 / 10)) ''neutral'') ''https://valid/img.png''
       = Inr (JObj [(''is_nsfw'', JBool False), (''confidence'', JNum (8 / 10)),
                    (''category'', JStr ''safe''), (''reason'', JStr ''checked'')])
   \<and> (\<exists>v. fst (checkImageForNSFW (scenario_env (classifier_result False (8 / 10)) ''neutral'')
                  ''https://valid/img.png''
                  (scenario_world (scenario_asset ''uploading'' ''Camera Rig'') [])) = Inr v
          \<and> isNSFW v)
   \<and> \<not> key_missing (OPENROUTER_API_KEY (scenario_env (classifier_result False (3 / 10)) ''neutral''))
   \<and> fetch_result (scenario_env (classifier_result False (3 / 10)) ''neutral'') ''https://valid/img.png''
       = Inr (JObj [(''is_nsfw'', JBool False), (''confidence'', JNum (3 / 10)),
                    (''category'', JStr ''safe''), (''reason'', JStr ''checked'')])
   \<and> (\<exists>v. fst (checkImageForNSFW (scenario_env (classifier_result False (3 / 10)) ''neutral'')
                  ''https://valid/img.png''
                  (scenario_world (scenario_asset ''uploading'' ''Camera Rig'') [])) = Inr v
          \<and> \<not> isNSFW v)"
proof -
  let ?k8 = "[(''is_nsfw'', JBool False), (''confidence'', JNum (8 / 10)),
              (''category'', JStr ''safe''), (''reason'', JStr ''checked'')]"
  let ?k3 = "[(''is_nsfw'', JBool False), (''confidence'', JNum (3 / 10)),
              (''category'', JStr ''safe''), (''reason'', JStr ''checked'')]"
  let ?w = "scenario_world (scenario_asset ''uploading'' ''Camera Rig'') []"
  have key: "\<not> key_missing (OPENROUTER_API_KEY (scenario_env r ''neutral''))" for r
    by (simp add: key_missing_def scenario_env_def)
  have f8: "fetch_result (scenario_env (classifier_result False (8 / 10)) ''neutral'')
              ''https://valid/img.png'' = Inr (JObj ?k8)"
    by (simp add: scenario_fetch_result classifier_result_def)
  have f3: "fetch_result (scenario_env (classifier_result False (3 / 10)) ''neutral'')
              ''https://valid/img.png'' = Inr (JObj ?k3)"
    by (simp add: scenario_fetch_result classifier_result_def)
  from image_verdict_or_rule [OF key f8, of ?w] image_verdict_or_rule [OF key f3, of ?w] key f8 f3
  show ?thesis by auto
qed

section \<open>The two image adapters\<close>

text \<open>
  Claim C9, as stated: the adapter of \<^verbatim>\<open>part_000\<close> and the adapter of
  \<^verbatim>\<open>uploadHandling.ts\<close> give the same flag on every parsed response. They do not: on
  \<open>{is_nsfw: false, confidence: 0.8}\<close> the current adapter flags and the one of
  \<^verbatim>\<open>part_000\<close> does not.
\<close>

theorem adapters_disagree_counterexample:
  "fst (checkImageForNSFW (scenario_env (classifier_result False (8 / 10)) ''neutral'')
         ''https://valid/img.png'' (scenario_world (scenario_asset ''uploading'' ''Camera Rig'') []))
     = Inr \<lparr>isNSFW = True, confidence = 8 / 10, reason = ''[safe] checked''\<rparr>
   \<and> fst (checkImageForNSFW_part000 (scenario_env (classifier_result False (8 / 10)) ''neutral'')
         ''https://valid/img.png'' (scenario_world (scenario_asset ''uploading'' ''Camera Rig'') []))
     = Inr \<lparr>isNSFW0 = False, confidence0 = JNum (8 / 10), reason0 = JStr ''checked''\<rparr>"
  by (simp add: checkImageForNSFW_def checkImageForNSFW_part000_def image_scan_def
        image_scan_part000_def scenario_fetch_result fetch_result_part000_of_current
        verdict_of_result_def verdict_of_result_part000_def classifier_result_def
        js_gt_def js_or_def js_number_or_zero_def THRESHOLD_def key_missing_def)
     (simp add: scenario_env_def)

text \<open>
  Claim C9, amended. On every response that parses to an object both adapters return a
  verdict, and whatever the adapter of \<^verbatim>\<open>part_000\<close> flags the current adapter flags
  too: the former flags when \<open>is_nsfw\<close> is true and the confidence exceeds 0.7, the latter
  when \<open>is_nsfw\<close> is true or the confidence exceeds 0.65.
\<close>

theorem part000_flag_implies_current_flag:
  assumes "\<not> key_missing (OPENROUTER_API_KEY env)"
      and "fetch_result env url = Inr (JObj kvs)"
  shows "\<exists>v v0. fst (checkImageForNSFW env url w) = Inr v
            \<and> fst (checkImageForNSFW_part000 env url w) = Inr v0
            \<and> (isNSFW0 v0 \<longrightarrow> isNSFW v)
            \<and> (isNSFW0 v0 \<longleftrightarrow>
                  map_of kvs ''is_nsfw'' = Some (JBool True)
                  \<and> (\<exists>c. map_of kvs ''confidence'' = Some c
                           \<and> js_gt (to_number_conv env) c (7 / 10)))
            \<and> (isNSFW v \<longleftrightarrow>
                  map_of kvs ''is_nsfw'' = Some (JBool True)
                  \<or> (\<exists>c. map_of kvs ''confidence'' = Some c
                           \<and> js_gt (to_number_conv env) c (65 / 100)))"
proof -
  have old: "fetch_result_part000 env url = Inr (JObj kvs)"
    using assms(2) by (rule fetch_result_part000_of_current)
  have mono: "js_gt (to_number_conv env) c (7 / 10) \<Longrightarrow> js_gt (to_number_conv env) c (65 / 100)" for c
    by (erule js_gt_mono) simp
  show ?thesis
    using assms old mono
    by (auto simp: checkImageForNSFW_def checkImageForNSFW_part000_def image_scan_def
          image_scan_part000_def verdict_of_result_def verdict_of_result_part000_def
          THRESHOLD_def Let_def js_gt_def split: option.splits)
qed

theorem part000_flag_implies_current_flag_witness:
  "\<not> key_missing (OPENROUTER_API_KEY (scenario_env (classifier_result True (9 / 10)) ''neutral''))
   \<and> fetch_result (scenario_env (classifier_result True (9 / 10)) ''neutral'') ''https://valid/img.png''
       = Inr (JObj [(''is_nsfw'', JBool True), (''confidence'', JNum (9 / 10)),
                    (''category'', JStr ''safe''), (''reason'', JStr ''checked'')])
   \<and> (\<exists>v v0. fst (checkImageForNSFW (scenario_env (classifier_result True (9 / 10)) ''neutral'')
                  ''https://valid/img.png''
                  (scenario_world (scenario_asset ''uploading'' ''Camera Rig'') [])) = Inr v
          \<and> fst (checkImageForNSFW_part000 (scenario_env (classifier_result True (9 / 10)) ''neutral'')
                  ''https://valid/img.png''
                  (scenario_world (scenario_asset ''uploading'' ''Camera Rig'') [])) = Inr v0
          \<and> isNSFW0 v0 \<and> isNSFW v)"
proof -
  let ?e = "scenario_env (classifier_result True (9 / 10)) ''neutral''"
  let ?k = "[(''is_nsfw'', JBool True), (''confidence'', JNum (9 / 10)),
             (''category'', JStr ''safe''), (''reason'', JStr ''checked'')]"
  have key: "\<not> key_missing (OPENROUTER_API_KEY ?e)"
    by (simp add: key_missing_def scenario_env_def)
  have f: "fetch_result ?e ''https://valid/img.png'' = Inr (JObj ?k)"
    by (simp add: scenario_fetch_result classifier_result_def)
  have n: "js_gt (to_number_conv ?e) (JNum (9 / 10)) (7 / 10)"
    by (simp add: js_gt_def)
  from part000_flag_implies_current_flag [OF key f,
         of "scenario_world (scenario_asset ''uploading'' ''Camera Rig'') []"] key f n
  show ?thesis by auto
qed

section \<open>The text adapter fails open\<close>

lemma update_asset_text_free [simp]:
  "update_asset (env\<lparr>JIGSAWSTACK_API_KEY := k, text_fetch := tf\<rparr>) = update_asset env"
  by (intro ext) (simp add: update_asset_def)

lemma fetch_result_text_free [simp]:
  "fetch_result (env\<lparr>JIGSAWSTACK_API_KEY := k, text_fetch := tf\<rparr>) = fetch_result env"
  by (intro ext)
     (simp add: fetch_result_def
           cong: fetch_outcome.case_cong option.case_cong jsval.case_cong if_cong)

lemma verdict_of_result_text_free [simp]:
  "verdict_of_result (env\<lparr>JIGSAWSTACK_API_KEY := k, text_fetch := tf\<rparr>) = verdict_of_result env"
  by (intro ext) (simp add: verdict_of_result_def cong: option.case_cong)

lemma checkImage_text_free [simp]:
  "checkImageForNSFW (env\<lparr>JIGSAWSTACK_API_KEY := k, text_fetch := tf\<rparr>) = checkImageForNSFW env"
  by (intro ext) (simp add: checkImageForNSFW_def image_scan_def cong: sum.case_cong)

lemma logAudit_text_free [simp]:
  "logAuditAction (env\<lparr>JIGSAWSTACK_API_KEY := k, text_fetch := tf\<rparr>) = logAuditAction env"
  by (intro ext) (simp add: logAuditAction_cases)

lemma perform_text_free [simp]:
  "perform (env\<lparr>JIGSAWSTACK_API_KEY := k, text_fetch := tf\<rparr>) = perform env"
  by (intro ext) (simp add: perform_def)

lemma query_warnings_text_free [simp]:
  "query_warnings (env\<lparr>JIGSAWSTACK_API_KEY := k, text_fetch := tf\<rparr>) = query_warnings env"
  by (intro ext) (simp add: query_warnings_def)

lemma update_user_text_free [simp]:
  "update_user (env\<lparr>JIGSAWSTACK_API_KEY := k, text_fetch := tf\<rparr>) = update_user env"
  by (intro ext) (simp add: update_user_def)

lemma createWarning_text_free [simp]:
  "createWarning (env\<lparr>JIGSAWSTACK_API_KEY := k, text_fetch := tf\<rparr>) = createWarning env"
  by (intro ext)
     (simp add: createWarning_def auth_updateUser_def add_notification_def cong: if_cong)

lemma onAssetUploaded_text_free:
  "onAssetUploaded (env\<lparr>JIGSAWSTACK_API_KEY := k, text_fetch := tf\<rparr>) = onAssetUploaded env"
  by (intro ext)
     (simp add: onAssetUploaded_def warning_message_def cong: if_cong option.case_cong)

text \<open>
  Claim C8. \<^verbatim>\<open>checkTextForNSFW\<close> never raises. With the key missing it returns the
  non-flagged verdict with reason \<open>Text check skipped\<close>; when anything in its request
  throws (the network, an unreadable body, a malformed payload) the non-flagged verdict
  \<open>Text check failed\<close>; on a non-2xx answer \<open>Text check API error\<close>; without sentiment
  data \<open>No sentiment data\<close>. The pipeline's run does not depend on the text service or
  its key at all, so a failure of the text check cannot reject an asset.
\<close>

theorem checkTextForNSFW_fails_open:
  "(\<exists>v. fst (checkTextForNSFW env text fieldName w) = Inr v)
   \<and> (key_missing (JIGSAWSTACK_API_KEY env) \<longrightarrow>
        fst (checkTextForNSFW env text fieldName w) = Inr (degraded ''Text check skipped''))
   \<and> (\<not> key_missing (JIGSAWSTACK_API_KEY env) \<and> trim text \<noteq> [] \<longrightarrow>
        (\<forall>e. text_scan env text fieldName = Inl e \<longrightarrow>
           fst (checkTextForNSFW env text fieldName w) = Inr (degraded ''Text check failed''))
        \<and> (text_fetch env text = FetchRejected \<longrightarrow>
             fst (checkTextForNSFW env text fieldName w) = Inr (degraded ''Text check failed''))
        \<and> (\<forall>response. text_fetch env text = FetchResolved response \<longrightarrow>
             (\<not> resp_ok response \<longrightarrow>
                fst (checkTextForNSFW env text fieldName w)
                  = Inr (degraded (if resp_text response = None then ''Text check failed''
                                   else ''Text check API error'')))
             \<and> (resp_ok response \<and> resp_json response = None \<longrightarrow>
                  fst (checkTextForNSFW env text fieldName w) = Inr (degraded ''Text check failed''))
             \<and> (resp_ok response
                  \<and> (\<exists>data s. resp_json response = Some data
                         \<and> get_field data ''sentiment'' = Some s \<and> \<not> truthy s) \<longrightarrow>
                  fst (checkTextForNSFW env text fieldName w) = Inr (degraded ''No sentiment data''))))
   \<and> (\<forall>r. \<not> t_isNSFW (degraded r) \<and> t_reason (degraded r) = r)
   \<and> onAssetUploaded (env\<lparr>JIGSAWSTACK_API_KEY := k, text_fetch := tf\<rparr>) now assetId a w'
       = onAssetUploaded env now assetId a w'"
proof -
  have blank: "trim text \<noteq> [] \<Longrightarrow> text \<noteq> []"
    by (auto simp: trim_def)
  show ?thesis
    using blank
    by (auto simp: checkTextForNSFW_def text_scan_def degraded_def Let_def onAssetUploaded_text_free
             split: sum.splits option.splits)
qed

theorem checkTextForNSFW_fails_open_witness:
  "key_missing (JIGSAWSTACK_API_KEY
       ((scenario_env (classifier_result False 0) ''neutral'')\<lparr>JIGSAWSTACK_API_KEY := None\<rparr>))
   \<and> fst (checkTextForNSFW
          ((scenario_env (classifier_result False 0) ''neutral'')\<lparr>JIGSAWSTACK_API_KEY := None\<rparr>)
          ''Camera Rig'' ''Asset Name''
          (scenario_world (scenario_asset ''uploading'' ''Camera Rig'') []))
       = Inr \<lparr>t_isNSFW = False, t_reason = ''Text check skipped'', t_emotion = [],
              t_sentiment = JStr []\<rparr>
   \<and> \<not> key_missing (JIGSAWSTACK_API_KEY
         (text_service_down (scenario_env (classifier_result False 0) ''neutral'')))
   \<and> trim ''Camera Rig'' \<noteq> []
   \<and> \<not> resp_ok \<lparr>resp_ok = False, resp_status = 503, resp_text = Some ''unavailable'',
                  resp_json = None\<rparr>
   \<and> fst (checkTextForNSFW
          (text_service_down (scenario_env (classifier_result False 0) ''neutral''))
          ''Camera Rig'' ''Asset Name''
          (scenario_world (scenario_asset ''uploading'' ''Camera Rig'') []))
       = Inr \<lparr>t_isNSFW = False, t_reason = ''Text check API error'', t_emotion = [],
              t_sentiment = JStr []\<rparr>"
proof -
  let ?w = "scenario_world (scenario_asset ''uploading'' ''Camera Rig'') []"
  let ?e1 = "(scenario_env (classifier_result False 0) ''neutral'')\<lparr>JIGSAWSTACK_API_KEY := None\<rparr>"
  let ?e2 = "text_service_down (scenario_env (classifier_result False 0) ''neutral'')"
  have k1: "key_missing (JIGSAWSTACK_API_KEY ?e1)"
    by (simp add: key_missing_def)
  have k2: "\<not> key_missing (JIGSAWSTACK_API_KEY ?e2)"
    by (simp add: key_missing_def text_service_down_def scenario_env_def)
  have t: "trim ''Camera Rig'' \<noteq> []"
    by (simp add: trim_def is_ws_def)
  have f: "text_fetch ?e2 ''Camera Rig'' = FetchResolved
             \<lparr>resp_ok = False, resp_status = 503, resp_text = Some ''unavailable'',
              resp_json = None\<rparr>"
    by (simp add: text_service_down_def)
  from checkTextForNSFW_fails_open [of ?e1 "''Camera Rig''" "''Asset Name''" ?w]
       checkTextForNSFW_fails_open [of ?e2 "''Camera Rig''" "''Asset Name''" ?w]
       k1 k2 t f
  show ?thesis by (simp add: degraded_def)
qed

section \<open>Audit entries\<close>

text \<open>No operation of the core adds an entry recorded as failed.\<close>

lemma failed_logAuditAction:
  "failed_entries (snd (logAuditAction env now actorId action targetId sens details ip ua w)) = failed_entries w"
  by (simp add: logAuditAction_cases failed_entries_def)

lemma failed_update_user: "failed_entries (snd (update_user env userId b patch w)) = failed_entries w"
  by (simp add: update_user_def failed_entries_def Let_def split: option.splits)

lemma failed_update_asset: "failed_entries (snd (update_asset env assetId st patch w)) = failed_entries w"
  by (simp add: update_asset_def failed_entries_def Let_def split: option.splits)

lemma failed_auth: "failed_entries (snd (auth_updateUser env userId b w)) = failed_entries w"
  unfolding auth_updateUser_def by (rule keeps_perform) (simp_all add: failed_entries_def)

lemma failed_notify: "failed_entries (snd (add_notification env userId ty title w)) = failed_entries w"
  unfolding add_notification_def by (rule keeps_perform) (simp_all add: failed_entries_def)

lemma failed_query_warnings: "failed_entries (snd (query_warnings env userId r w)) = failed_entries w"
  by (simp add: query_warnings_def failed_entries_def Let_def)

lemma failed_query_expired: "failed_entries (snd (query_expired env now w)) = failed_entries w"
  by (simp add: query_expired_def failed_entries_def Let_def)

lemma failed_checkImage: "failed_entries (snd (checkImageForNSFW env url w)) = failed_entries w"
  by (simp add: checkImageForNSFW_def failed_entries_def Let_def split: sum.splits)

lemma failed_createWarning:
  "failed_entries (snd (createWarning env now userId r message evidence w)) = failed_entries w"
  unfolding createWarning_def Let_def
  by (intro keeps_intros keeps_perform failed_query_warnings
        failed_update_user failed_auth failed_notify failed_logAuditAction)
     (simp_all add: failed_entries_def)

lemma failed_onAssetUploaded:
  "failed_entries (snd (onAssetUploaded env now assetId a w)) = failed_entries w"
  unfolding onAssetUploaded_def
  by (intro keeps_if keeps_catch keeps_swallow keeps_return)
     (auto intro!: keeps_intros failed_update_asset
        failed_checkImage failed_createWarning failed_logAuditAction split: option.splits)

lemma failed_restore_user: "failed_entries (snd (restore_user env now userId w)) = failed_entries w"
  unfolding restore_user_def
  by (intro keeps_intros failed_update_user failed_auth failed_notify failed_logAuditAction)

lemma failed_restore_loop: "failed_entries (snd (restore_loop env now docs n w)) = failed_entries w"
proof (induction docs arbitrary: n w)
  case Nil
  show ?case by (simp add: io_return_def)
next
  case (Cons doc docs)
  show ?case unfolding restore_loop.simps
    by (rule keeps_then) (rule failed_restore_user, rule Cons.IH)
qed

lemma failed_checkExpiredBans: "failed_entries (snd (checkExpiredBans env now w)) = failed_entries w"
  unfolding checkExpiredBans_def
  by (intro keeps_swallow keeps_bind failed_query_expired failed_restore_loop)

text \<open>
  Claim C10. \<^verbatim>\<open>logAuditAction\<close> never throws. When the append is refused it returns the
  sentinel \<open>audit_failed\<close> and the log is as before; otherwise the log grows by one entry,
  whose status is \<open>success\<close>. Neither it nor any operation of the core that calls it
  (\<^verbatim>\<open>createWarning\<close>, \<^verbatim>\<open>onAssetUploaded\<close>, \<^verbatim>\<open>checkExpiredBans\<close>) ever adds an entry with
  status \<open>failed\<close>, whatever the sensitivity flag and whichever of their calls fail.
\<close>

theorem audit_entries_always_success:
  "(\<exists>docId. fst (logAuditAction env now actorId action targetId sens details ip ua w) = Inr docId)
   \<and> (throws env (trace w) (EvAuditAdd actorId action targetId) \<longrightarrow>
        fst (logAuditAction env now actorId action targetId sens details ip ua w)
          = Inr ''audit_failed''
        \<and> audit_logs (snd (logAuditAction env now actorId action targetId sens details ip ua w))
          = audit_logs w)
   \<and> (\<not> throws env (trace w) (EvAuditAdd actorId action targetId) \<longrightarrow>
        (\<exists>entry. audit_logs (snd (logAuditAction env now actorId action targetId sens details ip ua w))
                   = audit_logs w @ [entry]
                \<and> a_status entry = success \<and> a_actorId entry = actorId
                \<and> a_action entry = action \<and> a_targetId entry = targetId))
   \<and> failed_entries (snd (logAuditAction env now actorId action targetId sens details ip ua w))
       = failed_entries w
   \<and> failed_entries (snd (createWarning env now userId r message evidence w)) = failed_entries w
   \<and> failed_entries (snd (onAssetUploaded env now assetId a w)) = failed_entries w
   \<and> failed_entries (snd (checkExpiredBans env now w)) = failed_entries w"
  by (simp add: failed_logAuditAction failed_createWarning failed_onAssetUploaded
        failed_checkExpiredBans) (simp add: logAuditAction_cases)

theorem audit_entries_always_success_witness:
  "throws (audit_down (scenario_env (classifier_result False 0) ''neutral'')) []
      (EvAuditAdd ''admin1'' ''USER_BANNED'' ''u1'')
   \<and> logAuditAction (audit_down (scenario_env (classifier_result False 0) ''neutral'')) 0
        ''admin1'' ''USER_BANNED'' ''u1'' True [] None None
        (scenario_world (scenario_asset ''uploading'' ''Camera Rig'') [(''u1'', clean_user)])
      = (Inr ''audit_failed'',
         (scenario_world (scenario_asset ''uploading'' ''Camera Rig'') [(''u1'', clean_user)])
           \<lparr>trace := [EvAuditAdd ''admin1'' ''USER_BANNED'' ''u1'']\<rparr>)
   \<and> \<not> throws (scenario_env (classifier_result False 0) ''neutral'') []
      (EvAuditAdd ''admin1'' ''USER_BANNED'' ''u1'')
   \<and> map a_status (audit_logs (snd (logAuditAction (scenario_env (classifier_result False 0) ''neutral'') 0
        ''admin1'' ''USER_BANNED'' ''u1'' True [] None None
        (scenario_world (scenario_asset ''uploading'' ''Camera Rig'') [(''u1'', clean_user)]))))
      = [success]"
  using audit_entries_always_success [of "audit_down (scenario_env (classifier_result False 0) ''neutral'')" 0
          "''admin1''" "''USER_BANNED''" "''u1''" True "[]" None None
          "scenario_world (scenario_asset ''uploading'' ''Camera Rig'') [(''u1'', clean_user)]"]
        audit_entries_always_success [of "scenario_env (classifier_result False 0) ''neutral''" 0
          "''admin1''" "''USER_BANNED''" "''u1''" True "[]" None None
          "scenario_world (scenario_asset ''uploading'' ''Camera Rig'') [(''u1'', clean_user)]"]
  by (auto simp: audit_down_def scenario_env_def scenario_world_def logAuditAction_cases)


section \<open>Calls made by \<^verbatim>\<open>createWarning\<close>\<close>

lemma createWarning_assets: "assets (snd (createWarning env now u r m ev w)) = assets w"
  unfolding createWarning_def Let_def
  by (intro keeps_intros keeps_prims) simp_all

lemma createWarning_rejection_audits:
  "rejection_audits (snd (createWarning env now u r m ev w)) = rejection_audits w"
  unfolding createWarning_def Let_def
  by (intro keeps_intros keeps_prims) (simp_all add: rejection_audits_def)

lemma createWarning_text_fetches:
  "text_fetches (snd (createWarning env now u r m ev w)) = text_fetches w"
  unfolding createWarning_def Let_def
  by (intro keeps_intros keeps_prims) (simp_all add: text_fetches_def)

lemma createWarning_calls:
  "warning_calls (snd (createWarning env now u r m ev w)) = warning_calls w @ [EvWarningsQuery u r]"
proof -
  have "warning_calls (snd (createWarning env now u r m ev w))
          = warning_calls (snd (query_warnings env u r w))"
    unfolding createWarning_def Let_def
    by (rule after_bind) (intro keeps_intros keeps_prims; simp add: warning_calls_def)
  then show ?thesis by (simp add: query_warnings_def Let_def warning_calls_def)
qed

lemma onAssetUploaded_text_fetches:
  "text_fetches (snd (onAssetUploaded env now assetId a w)) = text_fetches w"
  unfolding onAssetUploaded_def
  by (intro keeps_intros keeps_option keeps_prims createWarning_text_fetches)
     (simp_all add: text_fetches_def)

section \<open>The image stage fails closed\<close>

text \<open>Each failure the adapter can meet makes \<^verbatim>\<open>checkImageForNSFW\<close> throw.\<close>

lemma image_failure_causes:
  "(key_missing (OPENROUTER_API_KEY env) \<longrightarrow>
      fst (checkImageForNSFW env url w) = Inl ServiceUnavailable)
   \<and> (\<not> key_missing (OPENROUTER_API_KEY env) \<longrightarrow>
        (image_fetch env url = FetchRejected \<longrightarrow>
           fst (checkImageForNSFW env url w) = Inl (DetectionFailed NetworkError))
        \<and> (image_fetch env url = FetchResolved r \<and> \<not> resp_ok r \<longrightarrow>
             (\<exists>e. fst (checkImageForNSFW env url w) = Inl (DetectionFailed e)))
        \<and> (image_fetch env url = FetchResolved r \<and> resp_ok r \<and> resp_json r = None \<longrightarrow>
             fst (checkImageForNSFW env url w) = Inl (DetectionFailed BodyUnreadable))
        \<and> (image_fetch env url = FetchResolved (chat_response c) \<and> extract_json c = None \<longrightarrow>
             fst (checkImageForNSFW env url w) = Inl (DetectionFailed NoJsonInResponse))
        \<and> (image_fetch env url = FetchResolved (chat_response c) \<and> extract_json c = Some j
              \<and> JSON_parse env j = None \<longrightarrow>
             fst (checkImageForNSFW env url w) = Inl (DetectionFailed InvalidJson)))"
  by (simp add: checkImageForNSFW_def image_scan_def fetch_result_def chat_response_def Let_def
           split: option.splits)

lemma checkImage_world:
  "snd (checkImageForNSFW env url w) = w
   \<or> snd (checkImageForNSFW env url w) = w\<lparr>trace := trace w @ [EvImageFetch url]\<rparr>"
  by (simp add: checkImageForNSFW_def Let_def split: sum.splits)

lemma onAssetUploaded_classifier_failed:
  assumes "status a = ''uploading''" and "imageUrl a = Some url" and "url \<noteq> []"
      and "valid_URL env url" and "checkImageForNSFW env url w = (Inl e, w1)"
  shows "onAssetUploaded env now assetId a w =
           (Inr (), snd (update_asset env assetId ''rejected''
                           (reject_patch now (VerificationFailed e)) w1))"
  using assms by (simp add: onAssetUploaded_def io_defs split: prod.splits)

text \<open>
  Claim C1. In every run in which \<^verbatim>\<open>checkImageForNSFW\<close> is called and throws, whatever the
  cause, the handler returns normally and issues exactly one update of the asset, which
  writes status \<open>rejected\<close>; it issues it right after the classifier call. When the store
  accepts the write the stored status is \<open>rejected\<close>, and otherwise the stored assets are
  as before. The run never sets the status to \<open>published\<close>.
\<close>

theorem classifier_failure_rejects:
  assumes "status a = ''uploading''" and "imageUrl a = Some url" and "url \<noteq> []"
      and "valid_URL env url" and "checkImageForNSFW env url w = (Inl e, w1)"
  shows "fst (onAssetUploaded env now assetId a w) = Inr ()
       \<and> trace (snd (onAssetUploaded env now assetId a w))
           = trace w1 @ [EvAssetUpdate assetId ''rejected'']
       \<and> asset_updates (snd (onAssetUploaded env now assetId a w))
           = asset_updates w @ [EvAssetUpdate assetId ''rejected'']
       \<and> (if \<not> throws env (trace w1) (EvAssetUpdate assetId ''rejected'')
              \<and> assets w assetId \<noteq> None
           then stored_status (snd (onAssetUploaded env now assetId a w)) assetId = Some ''rejected''
           else assets (snd (onAssetUploaded env now assetId a w)) = assets w)
       \<and> (stored_status (snd (onAssetUploaded env now assetId a w)) assetId = Some ''published''
            \<longrightarrow> stored_status w assetId = Some ''published'')"
proof -
  have w1: "w1 = w \<or> w1 = w\<lparr>trace := trace w @ [EvImageFetch url]\<rparr>"
    using checkImage_world [of env url w] assms(5) by simp
  show ?thesis
    unfolding onAssetUploaded_classifier_failed [OF assms]
    using w1
    by (auto simp: update_asset_def Let_def stored_status_def reject_patch_def asset_updates_def
             split: option.splits)
qed

theorem classifier_failure_rejects_witness:
  "status (scenario_asset ''uploading'' ''Camera Rig'') = ''uploading''
   \<and> imageUrl (scenario_asset ''uploading'' ''Camera Rig'') = Some ''https://valid/img.png''
   \<and> ''https://valid/img.png'' \<noteq> []
   \<and> valid_URL (image_key_unset (scenario_env (classifier_result False 0) ''neutral''))
        ''https://valid/img.png''
   \<and> checkImageForNSFW (image_key_unset (scenario_env (classifier_result False 0) ''neutral''))
        ''https://valid/img.png''
        (scenario_world (scenario_asset ''uploading'' ''Camera Rig'') [(''u1'', clean_user)])
      = (Inl ServiceUnavailable,
         scenario_world (scenario_asset ''uploading'' ''Camera Rig'') [(''u1'', clean_user)])
   \<and> stored_status
        (snd (onAssetUploaded (image_key_unset (scenario_env (classifier_result False 0) ''neutral''))
               0 ''a1'' (scenario_asset ''uploading'' ''Camera Rig'')
               (scenario_world (scenario_asset ''uploading'' ''Camera Rig'') [(''u1'', clean_user)])))
        ''a1'' = Some ''rejected''"
proof -
  let ?e = "image_key_unset (scenario_env (classifier_result False 0) ''neutral'')"
  let ?a = "scenario_asset ''uploading'' ''Camera Rig''"
  let ?w = "scenario_world ?a [(''u1'', clean_user)]"
  have 1: "status ?a = ''uploading''" and 2: "imageUrl ?a = Some ''https://valid/img.png''"
    by (simp_all add: scenario_asset_def)
  have 3: "''https://valid/img.png'' \<noteq> []" by simp
  have 4: "valid_URL ?e ''https://valid/img.png''"
    by (simp add: image_key_unset_def scenario_env_def)
  have 5: "checkImageForNSFW ?e ''https://valid/img.png'' ?w = (Inl ServiceUnavailable, ?w)"
    by (simp add: checkImageForNSFW_def image_key_unset_def key_missing_def)
  have 6: "\<not> throws ?e (trace ?w) (EvAssetUpdate ''a1'' ''rejected'') \<and> assets ?w ''a1'' \<noteq> None"
    by (simp add: image_key_unset_def scenario_env_def scenario_world_def)
  from classifier_failure_rejects [OF 1 2 3 4 5, of 0 "''a1''"] 1 2 3 4 5 6
  show ?thesis by simp
qed

section \<open>Side effects of a rejection\<close>

lemma checkImage_ok_world:
  assumes "checkImageForNSFW env url w = (Inr v, w1)"
  shows "w1 = w\<lparr>trace := trace w @ [EvImageFetch url]\<rparr>"
  using assms by (auto simp: checkImageForNSFW_def Let_def split: if_splits sum.splits)

lemma onAssetUploaded_flagged:
  assumes "status a = ''uploading''" and "imageUrl a = Some url" and "url \<noteq> []"
      and "valid_URL env url" and "checkImageForNSFW env url w = (Inr v, w1)" and "isNSFW v"
      and "\<not> throws env (trace w1) (EvAssetUpdate assetId ''rejected'')"
      and "assets w assetId = Some a0"
  shows "onAssetUploaded env now assetId a w =
     (Inr (),
      snd (logAuditAction env now (authorId a) ''UPLOAD_REJECTED_NSFW'' assetId True
             [(''assetName'', JStr (name a)), (''confidence'', JNum (confidence v)),
              (''reason'', JStr (reason v))] None None
        (snd (createWarning env now (authorId a) upload_abuse (warning_message env a v) (Some url)
           (w1\<lparr>trace := trace w1 @ [EvAssetUpdate assetId ''rejected''],
               assets := (assets w1)(assetId \<mapsto> reject_nsfw_patch now v a0)\<rparr>)))))"
proof -
  have w1: "w1 = w\<lparr>trace := trace w @ [EvImageFetch url]\<rparr>"
    using assms(5) by (rule checkImage_ok_world)
  have upd: "update_asset env assetId ''rejected'' (reject_nsfw_patch now v) w1 =
       (Inr (), w1\<lparr>trace := trace w1 @ [EvAssetUpdate assetId ''rejected''],
                   assets := (assets w1)(assetId \<mapsto> reject_nsfw_patch now v a0)\<rparr>)"
    using assms(7,8) by (simp add: update_asset_def Let_def w1)
  show ?thesis
    using assms(1-6) upd
    by (simp add: onAssetUploaded_def io_defs split: prod.splits)
qed

text \<open>
  Claim C3, as stated: every run that ends with status \<open>rejected\<close> makes exactly one
  \<^verbatim>\<open>createWarning\<close> call and one audit append. With the image credential missing the
  run rejects the asset and makes neither: its only call is the update of the asset.
\<close>

theorem rejection_without_warning_counterexample:
  "stored_status
     (snd (onAssetUploaded (image_key_unset (scenario_env (classifier_result False 0) ''neutral''))
            0 ''a1'' (scenario_asset ''uploading'' ''Camera Rig'')
            (scenario_world (scenario_asset ''uploading'' ''Camera Rig'') [(''u1'', clean_user)])))
     ''a1'' = Some ''rejected''
   \<and> trace
     (snd (onAssetUploaded (image_key_unset (scenario_env (classifier_result False 0) ''neutral''))
            0 ''a1'' (scenario_asset ''uploading'' ''Camera Rig'')
            (scenario_world (scenario_asset ''uploading'' ''Camera Rig'') [(''u1'', clean_user)])))
     = [EvAssetUpdate ''a1'' ''rejected'']
   \<and> warning_calls
     (snd (onAssetUploaded (image_key_unset (scenario_env (classifier_result False 0) ''neutral''))
            0 ''a1'' (scenario_asset ''uploading'' ''Camera Rig'')
            (scenario_world (scenario_asset ''uploading'' ''Camera Rig'') [(''u1'', clean_user)])))
     = []
   \<and> audit_appends
     (snd (onAssetUploaded (image_key_unset (scenario_env (classifier_result False 0) ''neutral''))
            0 ''a1'' (scenario_asset ''uploading'' ''Camera Rig'')
            (scenario_world (scenario_asset ''uploading'' ''Camera Rig'') [(''u1'', clean_user)])))
     = []"
proof -
  let ?e = "image_key_unset (scenario_env (classifier_result False 0) ''neutral'')"
  let ?a = "scenario_asset ''uploading'' ''Camera Rig''"
  let ?w = "scenario_world ?a [(''u1'', clean_user)]"
  have run: "onAssetUploaded ?e 0 ''a1'' ?a ?w =
      (Inr (), snd (update_asset ?e ''a1'' ''rejected''
                      (reject_patch 0 (VerificationFailed ServiceUnavailable)) ?w))"
    by (rule onAssetUploaded_classifier_failed [where url = "''https://valid/img.png''"])
       (simp_all add: scenario_asset_def image_key_unset_def scenario_env_def
          checkImageForNSFW_def key_missing_def)
  show ?thesis
    unfolding run
    by (simp add: update_asset_def image_key_unset_def scenario_env_def scenario_world_def
          stored_status_def reject_patch_def warning_calls_def audit_appends_def)
qed

text \<open>
  Claim C3, amended. When the image classifier returns a flagged verdict and the store
  accepts the update to \<open>rejected\<close>, the run makes exactly one \<^verbatim>\<open>createWarning\<close> call,
  for the author with category \<open>upload_abuse\<close>, and issues exactly one audit append with
  action \<open>UPLOAD_REJECTED_NSFW\<close>. A run that rejects because the image URL is missing or
  invalid, or because the classifier call failed, makes no \<^verbatim>\<open>createWarning\<close> call and no
  audit append.
\<close>

theorem flagged_rejection_side_effects:
  assumes "status a = ''uploading''"
  shows "(\<forall>url v w1.
            imageUrl a = Some url \<and> url \<noteq> [] \<and> valid_URL env url
            \<and> checkImageForNSFW env url w = (Inr v, w1) \<and> isNSFW v
            \<and> \<not> throws env (trace w1) (EvAssetUpdate assetId ''rejected'')
            \<and> assets w assetId \<noteq> None \<longrightarrow>
              stored_status (snd (onAssetUploaded env now assetId a w)) assetId = Some ''rejected''
              \<and> warning_calls (snd (onAssetUploaded env now assetId a w))
                  = warning_calls w @ [EvWarningsQuery (authorId a) upload_abuse]
              \<and> rejection_audits (snd (onAssetUploaded env now assetId a w))
                  = rejection_audits w
                    @ [EvAuditAdd (authorId a) ''UPLOAD_REJECTED_NSFW'' assetId])
       \<and> (imageUrl a = None \<or> imageUrl a = Some []
           \<or> (\<exists>url. imageUrl a = Some url
                 \<and> (\<not> valid_URL env url \<or> (\<exists>e. fst (checkImageForNSFW env url w) = Inl e))) \<longrightarrow>
              warning_calls (snd (onAssetUploaded env now assetId a w)) = warning_calls w
              \<and> audit_appends (snd (onAssetUploaded env now assetId a w)) = audit_appends w)"
    (is "?flagged \<and> (?other \<longrightarrow> ?quiet)")
proof (rule conjI)
  show ?flagged
  proof (intro allI impI conjI)
  fix url v w1
  assume h: "imageUrl a = Some url \<and> url \<noteq> [] \<and> valid_URL env url
            \<and> checkImageForNSFW env url w = (Inr v, w1) \<and> isNSFW v
            \<and> \<not> throws env (trace w1) (EvAssetUpdate assetId ''rejected'')
            \<and> assets w assetId \<noteq> None"
  then obtain a0 where a0: "assets w assetId = Some a0" by auto
  have w1: "w1 = w\<lparr>trace := trace w @ [EvImageFetch url]\<rparr>"
    using h by (auto intro: checkImage_ok_world)
  have run: "onAssetUploaded env now assetId a w =
     (Inr (),
      snd (logAuditAction env now (authorId a) ''UPLOAD_REJECTED_NSFW'' assetId True
             [(''assetName'', JStr (name a)), (''confidence'', JNum (confidence v)),
              (''reason'', JStr (reason v))] None None
        (snd (createWarning env now (authorId a) upload_abuse (warning_message env a v) (Some url)
           (w1\<lparr>trace := trace w1 @ [EvAssetUpdate assetId ''rejected''],
               assets := (assets w1)(assetId \<mapsto> reject_nsfw_patch now v a0)\<rparr>)))))"
    using assms h a0 by (intro onAssetUploaded_flagged) auto
  show "stored_status (snd (onAssetUploaded env now assetId a w)) assetId = Some ''rejected''"
    unfolding run
    by (simp add: stored_status_def logAuditAction_cases createWarning_assets reject_nsfw_patch_def)
  show "warning_calls (snd (onAssetUploaded env now assetId a w))
          = warning_calls w @ [EvWarningsQuery (authorId a) upload_abuse]"
    unfolding run
    by (simp add: logAuditAction_cases warning_calls_def
          createWarning_calls [unfolded warning_calls_def] w1)
  show "rejection_audits (snd (onAssetUploaded env now assetId a w))
          = rejection_audits w @ [EvAuditAdd (authorId a) ''UPLOAD_REJECTED_NSFW'' assetId]"
    unfolding run
    by (simp add: logAuditAction_cases rejection_audits_def
          createWarning_rejection_audits [unfolded rejection_audits_def] w1)
  qed
next
  show "?other \<longrightarrow> ?quiet"
  proof (rule impI)
  assume h: ?other
  have quiet: "warning_calls (snd (io_catch (update_asset env assetId ''rejected'' p)
                  (\<lambda>error. io_swallow (update_asset env assetId ''rejected'' (q error))) w'))
                 = warning_calls w'
               \<and> audit_appends (snd (io_catch (update_asset env assetId ''rejected'' p)
                  (\<lambda>error. io_swallow (update_asset env assetId ''rejected'' (q error))) w'))
                 = audit_appends w'" for p q w'
    by (intro conjI keeps_intros keeps_prims) (simp_all add: warning_calls_def audit_appends_def)
  show ?quiet
  proof (cases "\<exists>url e. imageUrl a = Some url \<and> url \<noteq> [] \<and> valid_URL env url
                  \<and> fst (checkImageForNSFW env url w) = Inl e")
    case True
    then obtain url e where u: "imageUrl a = Some url" "url \<noteq> []" "valid_URL env url"
        "fst (checkImageForNSFW env url w) = Inl e" by auto
    have c: "checkImageForNSFW env url w = (Inl e, snd (checkImageForNSFW env url w))"
      using u(4) by (metis prod.collapse)
    have k: "warning_calls (snd (checkImageForNSFW env url w)) = warning_calls w"
            "audit_appends (snd (checkImageForNSFW env url w)) = audit_appends w"
      by (rule keeps_checkImage, simp add: warning_calls_def audit_appends_def)+
    have u1: "warning_calls (snd (update_asset env assetId ''rejected'' p w')) = warning_calls w'"
      for p w' by (rule keeps_update_asset) (simp_all add: warning_calls_def)
    have u2: "audit_appends (snd (update_asset env assetId ''rejected'' p w')) = audit_appends w'"
      for p w' by (rule keeps_update_asset) (simp_all add: audit_appends_def)
    show ?thesis
      unfolding onAssetUploaded_classifier_failed [OF assms u(1,2,3) c]
      by (simp add: k u1 u2)
  next
    case False
    with h have "imageUrl a = None \<or> imageUrl a = Some []
                 \<or> (\<exists>url. imageUrl a = Some url \<and> \<not> valid_URL env url)"
      by auto
    then show ?thesis
      using assms quiet by (auto simp: onAssetUploaded_def)
  qed
  qed
qed

theorem flagged_rejection_side_effects_witness:
  "status (scenario_asset ''uploading'' ''Camera Rig'') = ''uploading''
   \<and> imageUrl (scenario_asset ''uploading'' ''Camera Rig'') = Some ''https://valid/img.png''
   \<and> valid_URL (scenario_env (classifier_result True (9 / 10)) ''neutral'') ''https://valid/img.png''
   \<and> checkImageForNSFW (scenario_env (classifier_result True (9 / 10)) ''neutral'')
        ''https://valid/img.png''
        (scenario_world (scenario_asset ''uploading'' ''Camera Rig'') [(''u1'', clean_user)])
      = (Inr \<lparr>isNSFW = True, confidence = 9 / 10, reason = ''[safe] checked''\<rparr>,
         (scenario_world (scenario_asset ''uploading'' ''Camera Rig'') [(''u1'', clean_user)])
           \<lparr>trace := [EvImageFetch ''https://valid/img.png'']\<rparr>)
   \<and> \<not> throws (scenario_env (classifier_result True (9 / 10)) ''neutral'')
          [EvImageFetch ''https://valid/img.png''] (EvAssetUpdate ''a1'' ''rejected'')
   \<and> assets (scenario_world (scenario_asset ''uploading'' ''Camera Rig'') [(''u1'', clean_user)])
        ''a1'' \<noteq> None
   \<and> stored_status
        (snd (onAssetUploaded (scenario_env (classifier_result True (9 / 10)) ''neutral'') 0 ''a1''
               (scenario_asset ''uploading'' ''Camera Rig'')
               (scenario_world (scenario_asset ''uploading'' ''Camera Rig'') [(''u1'', clean_user)])))
        ''a1'' = Some ''rejected''
   \<and> warning_calls
        (snd (onAssetUploaded (scenario_env (classifier_result True (9 / 10)) ''neutral'') 0 ''a1''
               (scenario_asset ''uploading'' ''Camera Rig'')
               (scenario_world (scenario_asset ''uploading'' ''Camera Rig'') [(''u1'', clean_user)])))
        = [EvWarningsQuery ''u1'' upload_abuse]
   \<and> rejection_audits
        (snd (onAssetUploaded (scenario_env (classifier_result True (9 / 10)) ''neutral'') 0 ''a1''
               (scenario_asset ''uploading'' ''Camera Rig'')
               (scenario_world (scenario_asset ''uploading'' ''Camera Rig'') [(''u1'', clean_user)])))
        = [EvAuditAdd ''u1'' ''UPLOAD_REJECTED_NSFW'' ''a1'']
   \<and> status ((scenario_asset ''uploading'' ''Camera Rig'')\<lparr>imageUrl := None\<rparr>) = ''uploading''
   \<and> imageUrl ((scenario_asset ''uploading'' ''Camera Rig'')\<lparr>imageUrl := None\<rparr>) = None
   \<and> warning_calls
        (snd (onAssetUploaded (scenario_env (classifier_result True (9 / 10)) ''neutral'') 0 ''a1''
               ((scenario_asset ''uploading'' ''Camera Rig'')\<lparr>imageUrl := None\<rparr>)
               (scenario_world (scenario_asset ''uploading'' ''Camera Rig'') [(''u1'', clean_user)])))
        = []
   \<and> audit_appends
        (snd (onAssetUploaded (scenario_env (classifier_result True (9 / 10)) ''neutral'') 0 ''a1''
               ((scenario_asset ''uploading'' ''Camera Rig'')\<lparr>imageUrl := None\<rparr>)
               (scenario_world (scenario_asset ''uploading'' ''Camera Rig'') [(''u1'', clean_user)])))
        = []"
proof -
  let ?e = "scenario_env (classifier_result True (9 / 10)) ''neutral''"
  let ?a = "scenario_asset ''uploading'' ''Camera Rig''"
  let ?b = "(scenario_asset ''uploading'' ''Camera Rig'')\<lparr>imageUrl := None\<rparr>"
  let ?w = "scenario_world ?a [(''u1'', clean_user)]"
  let ?u = "''https://valid/img.png''"
  let ?v = "\<lparr>isNSFW = True, confidence = 9 / 10, reason = ''[safe] checked''\<rparr>"
  have 1: "status ?a = ''uploading''" and 2: "imageUrl ?a = Some ?u" and au: "authorId ?a = ''u1''"
    by (simp_all add: scenario_asset_def)
  have 3: "valid_URL ?e ?u" by (simp add: scenario_env_def)
  have 4: "checkImageForNSFW ?e ?u ?w = (Inr ?v, ?w\<lparr>trace := [EvImageFetch ?u]\<rparr>)"
    by (simp add: scenario_checkImage) (simp add: scenario_world_def)
  have 5: "\<not> throws ?e [EvImageFetch ?u] (EvAssetUpdate ''a1'' ''rejected'')"
    by (simp add: scenario_env_def)
  have 6: "assets ?w ''a1'' \<noteq> None" by (simp add: scenario_world_def)
  have 7: "warning_calls ?w = []" "rejection_audits ?w = []"
    by (simp_all add: scenario_world_def warning_calls_def rejection_audits_def)
  have hyp: "imageUrl ?a = Some ?u \<and> ?u \<noteq> [] \<and> valid_URL ?e ?u
            \<and> checkImageForNSFW ?e ?u ?w = (Inr ?v, ?w\<lparr>trace := [EvImageFetch ?u]\<rparr>) \<and> isNSFW ?v
            \<and> \<not> throws ?e (trace (?w\<lparr>trace := [EvImageFetch ?u]\<rparr>)) (EvAssetUpdate ''a1'' ''rejected'')
            \<and> assets ?w ''a1'' \<noteq> None"
    using 2 3 4 5 6 by simp
  have 8: "status ?b = ''uploading''" and 9: "imageUrl ?b = None"
    by (simp_all add: scenario_asset_def)
  have 10: "audit_appends ?w = []"
    by (simp add: scenario_world_def audit_appends_def)
  note flagged = flagged_rejection_side_effects [OF 1, of ?e ?w "''a1''" 0, THEN conjunct1,
                   rule_format, OF hyp]
  note other = flagged_rejection_side_effects [OF 8, of ?e ?w "''a1''" 0, THEN conjunct2,
                 rule_format, OF disjI1, OF 9]
  from flagged other 1 2 au 3 4 5 6 7 8 9 10
  show ?thesis by simp
qed


section \<open>The text stage\<close>

text \<open>
  Claim C2. The claim asks that the text classifier be run on name, description and tags
  before the image classifier, and that a flagged text reject the asset before any image
  call. At the asset named \<open>sex toys collection\<close>, with a text service that answers
  emotion \<open>sexual\<close> and an image service that answers \<open>{is_nsfw: false, confidence: 0.1}\<close>:
  \<^verbatim>\<open>checkTextForNSFW\<close> on the name returns a flagged verdict, yet the run of
  \<^verbatim>\<open>onAssetUploaded\<close> makes exactly three calls (the image request, the update to
  \<open>published\<close>, the audit append) and the stored status is \<open>published\<close>. The handler never
  calls \<^verbatim>\<open>checkTextForNSFW\<close>: by \<open>onAssetUploaded_text_fetches\<close> no run contacts the text
  service.
\<close>

theorem text_stage_not_invoked:
  "fst (checkTextForNSFW (scenario_env (classifier_result False (1 / 10)) ''sexual'')
          ''sex toys collection'' ''Asset Name''
          (scenario_world (scenario_asset ''uploading'' ''sex toys collection'') [(''u1'', clean_user)]))
     = Inr \<lparr>t_isNSFW = True, t_reason = ''Asset Name: Inappropriate content'',
            t_emotion = ''sexual'', t_sentiment = JStr ''neutral''\<rparr>
   \<and> trace (snd (onAssetUploaded (scenario_env (classifier_result False (1 / 10)) ''sexual'') 0 ''a1''
                   (scenario_asset ''uploading'' ''sex toys collection'')
                   (scenario_world (scenario_asset ''uploading'' ''sex toys collection'')
                      [(''u1'', clean_user)])))
     = [EvImageFetch ''https://valid/img.png'', EvAssetUpdate ''a1'' ''published'',
        EvAuditAdd ''u1'' ''ASSET_PUBLISHED'' ''a1'']
   \<and> stored_status
       (snd (onAssetUploaded (scenario_env (classifier_result False (1 / 10)) ''sexual'') 0 ''a1''
               (scenario_asset ''uploading'' ''sex toys collection'')
               (scenario_world (scenario_asset ''uploading'' ''sex toys collection'')
                  [(''u1'', clean_user)])))
       ''a1'' = Some ''published''"
proof -
  let ?e = "scenario_env (classifier_result False (1 / 10)) ''sexual''"
  let ?a = "scenario_asset ''uploading'' ''sex toys collection''"
  let ?w = "scenario_world ?a [(''u1'', clean_user)]"
  have tv: "fst (checkTextForNSFW ?e ''sex toys collection'' ''Asset Name'' ?w)
     = Inr \<lparr>t_isNSFW = True, t_reason = ''Asset Name: Inappropriate content'',
            t_emotion = ''sexual'', t_sentiment = JStr ''neutral''\<rparr>"
    by (simp add: checkTextForNSFW_def text_scan_def scenario_env_def sentiment_response_def
          key_missing_def trim_def is_ws_def js_or_def nsfwEmotions_def nsfwPatterns_def
          toLowerCase_def to_lower_char_def Let_def)
  have run: "onAssetUploaded ?e 0 ''a1'' ?a ?w =
      (Inr (), ?w\<lparr>trace := [EvImageFetch ''https://valid/img.png'', EvAssetUpdate ''a1'' ''published'',
                            EvAuditAdd ''u1'' ''ASSET_PUBLISHED'' ''a1''],
                  assets := (assets ?w)(''a1'' \<mapsto> publish_patch 0
                      \<lparr>isNSFW = False, confidence = 1 / 10, reason = ''[safe] checked''\<rparr> ?a),
                  audit_logs := [\<lparr>a_timestamp = 0, a_actorId = ''u1'', a_action = ''ASSET_PUBLISHED'',
                     a_targetId = ''a1'',
                     a_details = [(''assetName'', JStr ''sex toys collection''),
                                  (''nsfwConfidence'', JNum (1 / 10))],
                     a_status = success, a_ipAddress = None, a_userAgent = None\<rparr>]\<rparr>)"
    by (simp add: onAssetUploaded_def io_defs scenario_checkImage update_asset_def
          logAuditAction_cases Let_def scenario_asset_def scenario_world_def
          valid_URL_scenario throws_scenario)
  show ?thesis
    unfolding run using tv
    by (simp add: stored_status_def publish_patch_def)
qed

section \<open>The strike ledger\<close>

lemma map_of_patch:
  "map_of (map (\<lambda>(k, x). if k = u then (k, p x) else (k, x)) us) k'
     = (if k' = u then map_option p (map_of us u) else map_of us k')"
  by (induction us) auto

lemma createWarning_no_fault:
  assumes "\<forall>h e. \<not> throws env h e"
  shows "createWarning env now u r m ev w =
     (if length (active_warnings u r (warnings w)) + 1 < 3 then
           (Inr (), w\<lparr>trace := trace w @ [EvWarningsQuery u r, EvWarningsAdd u r,
                                            EvNotificationAdd u ''warning''],
                      warnings := warnings w @ [new_warning now u r m ev],
                      notifications := notifications w @
                        [\<lparr>n_userId = u, n_type = ''warning'', n_title = ''Account Warning''\<rparr>]\<rparr>)
         else if map_of (users w) u = None then
           (Inl (NotFound (EvUserUpdate u True)),
            w\<lparr>trace := trace w @ [EvWarningsQuery u r, EvWarningsAdd u r, EvUserUpdate u True],
              warnings := warnings w @ [new_warning now u r m ev]\<rparr>)
         else
           (Inr (), w\<lparr>trace := trace w @ [EvWarningsQuery u r, EvWarningsAdd u r,
                          EvUserUpdate u True, EvAuthUpdate u True, EvNotificationAdd u ''ban'',
                          EvAuditAdd ''SYSTEM'' ''AUTO_BAN_TRIGGERED'' u],
                      warnings := warnings w @ [new_warning now u r m ev],
                      users := map (\<lambda>(k, x). if k = u then (k, ban_patch now r x) else (k, x))
                                 (users w),
                      auth_disabled := (auth_disabled w)(u := True),
                      notifications := notifications w @
                        [\<lparr>n_userId = u, n_type = ''ban'',
                          n_title = ''Account Temporarily Suspended''\<rparr>],
                      audit_logs := audit_logs w @
                        [\<lparr>a_timestamp = now, a_actorId = ''SYSTEM'',
                          a_action = ''AUTO_BAN_TRIGGERED'', a_targetId = u,
                          a_details = [(''reason'', JStr (reason_name r)),
                                       (''warningCount'', JNum 3), (''banDays'', JNum 7)],
                          a_status = success, a_ipAddress = None, a_userAgent = None\<rparr>]\<rparr>))"
  using assms
  by (cases "map_of (users w) u")
     (simp_all add: createWarning_def io_defs query_warnings_def perform_def update_user_def
        auth_updateUser_def add_notification_def logAuditAction_cases Let_def)

lemma active_warnings_snoc:
  "active_warnings u r (ws @ [new_warning now u r m e])
     = active_warnings u r ws @ [new_warning now u r m e]"
  by (simp add: active_warnings_def new_warning_def)

lemma createWarning_below_threshold:
  assumes "\<forall>h e. \<not> throws env h e" and "length (active_warnings u r (warnings w)) < 2"
  shows "createWarning env now u r m ev w =
           (Inr (), w\<lparr>trace := trace w @ [EvWarningsQuery u r, EvWarningsAdd u r,
                                            EvNotificationAdd u ''warning''],
                      warnings := warnings w @ [new_warning now u r m ev],
                      notifications := notifications w @
                        [\<lparr>n_userId = u, n_type = ''warning'', n_title = ''Account Warning''\<rparr>]\<rparr>)"
  using assms(2) by (simp add: createWarning_no_fault [OF assms(1)])

lemma createWarning_at_threshold:
  assumes "\<forall>h e. \<not> throws env h e" and "2 \<le> length (active_warnings u r (warnings w))"
      and "map_of (users w) u = Some u0"
  shows "createWarning env now u r m ev w =
           (Inr (), w\<lparr>trace := trace w @ [EvWarningsQuery u r, EvWarningsAdd u r,
                          EvUserUpdate u True, EvAuthUpdate u True, EvNotificationAdd u ''ban'',
                          EvAuditAdd ''SYSTEM'' ''AUTO_BAN_TRIGGERED'' u],
                      warnings := warnings w @ [new_warning now u r m ev],
                      users := map (\<lambda>(k, x). if k = u then (k, ban_patch now r x) else (k, x))
                                 (users w),
                      auth_disabled := (auth_disabled w)(u := True),
                      notifications := notifications w @
                        [\<lparr>n_userId = u, n_type = ''ban'',
                          n_title = ''Account Temporarily Suspended''\<rparr>],
                      audit_logs := audit_logs w @
                        [\<lparr>a_timestamp = now, a_actorId = ''SYSTEM'',
                          a_action = ''AUTO_BAN_TRIGGERED'', a_targetId = u,
                          a_details = [(''reason'', JStr (reason_name r)),
                                       (''warningCount'', JNum 3), (''banDays'', JNum 7)],
                          a_status = success, a_ipAddress = None, a_userAgent = None\<rparr>]\<rparr>)"
  using assms(2,3) by (simp add: createWarning_no_fault [OF assms(1)])

lemma createWarning_persists:
  assumes "\<forall>h e. \<not> throws env h e"
  shows "warnings (snd (createWarning env now u r m ev w)) = warnings w @ [new_warning now u r m ev]"
  by (simp add: createWarning_no_fault [OF assms])

text \<open>
  Claim C5. Let no collaborator call fail, let the user's document exist with
  \<open>isBanned\<close> false, and let the user have no active warning of the category. Then three
  \<^verbatim>\<open>createWarning\<close> calls in sequence for that user and category all return; after them
  the active warnings of the pair are exactly the three created; after the second call the
  user's document is unchanged (\<open>isBanned\<close> false) and no audit entry was added; after the
  third, made at time \<open>t3\<close>, the document has \<open>isBanned\<close> true, the ban reason of the
  source and \<open>banUntilDate = t3 + 7 days\<close> in milliseconds, the auth account is disabled,
  and one audit entry \<open>AUTO_BAN_TRIGGERED\<close> by \<open>SYSTEM\<close> about the user was appended. From
  any state and at any count, a call appends a new active warning for the pair.
\<close>

theorem third_warning_triggers_ban:
  assumes "\<forall>h e. \<not> throws env h e"
      and "map_of (users w0) u = Some u0" and "\<not> isBanned u0"
      and "active_warnings u r (warnings w0) = []"
  shows "let w1 = snd (createWarning env t1 u r m1 e1 w0);
             w2 = snd (createWarning env t2 u r m2 e2 w1);
             w3 = snd (createWarning env t3 u r m3 e3 w2)
         in fst (createWarning env t1 u r m1 e1 w0) = Inr ()
          \<and> fst (createWarning env t2 u r m2 e2 w1) = Inr ()
          \<and> fst (createWarning env t3 u r m3 e3 w2) = Inr ()
          \<and> active_warnings u r (warnings w3)
              = [new_warning t1 u r m1 e1, new_warning t2 u r m2 e2, new_warning t3 u r m3 e3]
          \<and> map_of (users w1) u = Some u0
          \<and> map_of (users w2) u = Some u0
          \<and> map_option isBanned (map_of (users w2) u) = Some False
          \<and> audit_logs w2 = audit_logs w0
          \<and> map_of (users w3) u
              = Some (u0\<lparr>isBanned := True,
                         banReason := Some (''Automatic 7-day ban: 3 warnings for ''
                                            @ reason_name r),
                         banDate := Some t3,
                         banUntilDate := Some (t3 + 7 * 24 * 60 * 60 * 1000)\<rparr>)
          \<and> auth_disabled w3 u
          \<and> audit_logs w3 = audit_logs w0 @
               [\<lparr>a_timestamp = t3, a_actorId = ''SYSTEM'', a_action = ''AUTO_BAN_TRIGGERED'',
                 a_targetId = u,
                 a_details = [(''reason'', JStr (reason_name r)), (''warningCount'', JNum 3),
                              (''banDays'', JNum 7)],
                 a_status = success, a_ipAddress = None, a_userAgent = None\<rparr>]
          \<and> (\<forall>w now m e.
                 warnings (snd (createWarning env now u r m e w))
                   = warnings w @ [new_warning now u r m e]
                 \<and> w_isActive (new_warning now u r m e)
                 \<and> w_userId (new_warning now u r m e) = u
                 \<and> w_reason (new_warning now u r m e) = r)"
proof -
  define w1 where "w1 = snd (createWarning env t1 u r m1 e1 w0)"
  define w2 where "w2 = snd (createWarning env t2 u r m2 e2 w1)"
  define w3 where "w3 = snd (createWarning env t3 u r m3 e3 w2)"
  have c1: "createWarning env t1 u r m1 e1 w0 =
      (Inr (), w0\<lparr>trace := trace w0 @ [EvWarningsQuery u r, EvWarningsAdd u r,
                                        EvNotificationAdd u ''warning''],
                  warnings := warnings w0 @ [new_warning t1 u r m1 e1],
                  notifications := notifications w0 @
                    [\<lparr>n_userId = u, n_type = ''warning'', n_title = ''Account Warning''\<rparr>]\<rparr>)"
    by (rule createWarning_below_threshold [OF assms(1)]) (simp add: assms(4))
  have a1: "active_warnings u r (warnings w1) = [new_warning t1 u r m1 e1]"
    by (simp add: w1_def c1 active_warnings_snoc assms(4))
  have c2: "createWarning env t2 u r m2 e2 w1 =
      (Inr (), w1\<lparr>trace := trace w1 @ [EvWarningsQuery u r, EvWarningsAdd u r,
                                        EvNotificationAdd u ''warning''],
                  warnings := warnings w1 @ [new_warning t2 u r m2 e2],
                  notifications := notifications w1 @
                    [\<lparr>n_userId = u, n_type = ''warning'', n_title = ''Account Warning''\<rparr>]\<rparr>)"
    by (rule createWarning_below_threshold [OF assms(1)]) (simp add: a1)
  have a2: "active_warnings u r (warnings w2)
              = [new_warning t1 u r m1 e1, new_warning t2 u r m2 e2]"
    by (simp add: w2_def c2 active_warnings_snoc a1)
  have u1: "users w1 = users w0" "audit_logs w1 = audit_logs w0"
    by (simp_all add: w1_def c1)
  have u2: "users w2 = users w0" "audit_logs w2 = audit_logs w0" "auth_disabled w2 = auth_disabled w1"
    by (simp_all add: w2_def c2 u1)
  have c3: "createWarning env t3 u r m3 e3 w2 =
      (Inr (), w2\<lparr>trace := trace w2 @ [EvWarningsQuery u r, EvWarningsAdd u r,
                          EvUserUpdate u True, EvAuthUpdate u True, EvNotificationAdd u ''ban'',
                          EvAuditAdd ''SYSTEM'' ''AUTO_BAN_TRIGGERED'' u],
                  warnings := warnings w2 @ [new_warning t3 u r m3 e3],
                  users := map (\<lambda>(k, x). if k = u then (k, ban_patch t3 r x) else (k, x))
                             (users w2),
                  auth_disabled := (auth_disabled w2)(u := True),
                  notifications := notifications w2 @
                    [\<lparr>n_userId = u, n_type = ''ban'',
                      n_title = ''Account Temporarily Suspended''\<rparr>],
                  audit_logs := audit_logs w2 @
                    [\<lparr>a_timestamp = t3, a_actorId = ''SYSTEM'',
                      a_action = ''AUTO_BAN_TRIGGERED'', a_targetId = u,
                      a_details = [(''reason'', JStr (reason_name r)),
                                   (''warningCount'', JNum 3), (''banDays'', JNum 7)],
                      a_status = success, a_ipAddress = None, a_userAgent = None\<rparr>]\<rparr>)"
    by (rule createWarning_at_threshold [OF assms(1), where ?u0.0 = u0])
       (simp_all add: a2 u2 assms(2))
  have a3: "active_warnings u r (warnings w3)
              = [new_warning t1 u r m1 e1, new_warning t2 u r m2 e2, new_warning t3 u r m3 e3]"
    by (simp add: w3_def c3 active_warnings_snoc a2)
  have b3: "map_of (users w3) u = Some (ban_patch t3 r u0)"
    by (simp add: w3_def c3 u2 map_of_patch assms(2))
  have general: "warnings (snd (createWarning env now u r m e w)) = warnings w @ [new_warning now u r m e]
                 \<and> w_isActive (new_warning now u r m e)
                 \<and> w_userId (new_warning now u r m e) = u
                 \<and> w_reason (new_warning now u r m e) = r" for w now m e
    by (simp add: createWarning_persists [OF assms(1)] new_warning_def)
  have "fst (createWarning env t1 u r m1 e1 w0) = Inr ()
          \<and> fst (createWarning env t2 u r m2 e2 w1) = Inr ()
          \<and> fst (createWarning env t3 u r m3 e3 w2) = Inr ()
          \<and> active_warnings u r (warnings w3)
              = [new_warning t1 u r m1 e1, new_warning t2 u r m2 e2, new_warning t3 u r m3 e3]
          \<and> map_of (users w1) u = Some u0
          \<and> map_of (users w2) u = Some u0
          \<and> map_option isBanned (map_of (users w2) u) = Some False
          \<and> audit_logs w2 = audit_logs w0
          \<and> map_of (users w3) u
              = Some (u0\<lparr>isBanned := True,
                         banReason := Some (''Automatic 7-day ban: 3 warnings for ''
                                            @ reason_name r),
                         banDate := Some t3,
                         banUntilDate := Some (t3 + 7 * 24 * 60 * 60 * 1000)\<rparr>)
          \<and> auth_disabled w3 u
          \<and> audit_logs w3 = audit_logs w0 @
               [\<lparr>a_timestamp = t3, a_actorId = ''SYSTEM'', a_action = ''AUTO_BAN_TRIGGERED'',
                 a_targetId = u,
                 a_details = [(''reason'', JStr (reason_name r)), (''warningCount'', JNum 3),
                              (''banDays'', JNum 7)],
                 a_status = success, a_ipAddress = None, a_userAgent = None\<rparr>]"
    using a3 b3
    by (simp add: c1 c2 c3 u1 u2 assms(2,3) ban_patch_def BAN_MS_def) (simp add: w3_def c3 u2)
  then show ?thesis
    using general unfolding Let_def w1_def w2_def w3_def by blast
qed

theorem third_warning_triggers_ban_witness:
  "(\<forall>h e. \<not> throws (scenario_env (classifier_result True 1) ''neutral'') h e)
   \<and> map_of (users (scenario_world (scenario_asset ''rejected'' ''Camera Rig'')
                      [(''u1'', clean_user)])) ''u1'' = Some clean_user
   \<and> \<not> isBanned clean_user
   \<and> active_warnings ''u1'' upload_abuse
        (warnings (scenario_world (scenario_asset ''rejected'' ''Camera Rig'')
                     [(''u1'', clean_user)])) = []
   \<and> map_option isBanned (map_of (users
        (snd (createWarning (scenario_env (classifier_result True 1) ''neutral'') 2000 ''u1''
                upload_abuse ''second'' None
        (snd (createWarning (scenario_env (classifier_result True 1) ''neutral'') 1000 ''u1''
                upload_abuse ''first'' None
           (scenario_world (scenario_asset ''rejected'' ''Camera Rig'') [(''u1'', clean_user)])))))) ''u1'')
       = Some False
   \<and> map_of (users
        (snd (createWarning (scenario_env (classifier_result True 1) ''neutral'') 3000 ''u1''
                upload_abuse ''third'' None
        (snd (createWarning (scenario_env (classifier_result True 1) ''neutral'') 2000 ''u1''
                upload_abuse ''second'' None
        (snd (createWarning (scenario_env (classifier_result True 1) ''neutral'') 1000 ''u1''
                upload_abuse ''first'' None
           (scenario_world (scenario_asset ''rejected'' ''Camera Rig'') [(''u1'', clean_user)])))))))) ''u1''
       = Some \<lparr>isBanned = True,
               banReason = Some ''Automatic 7-day ban: 3 warnings for upload_abuse'',
               banDate = Some 3000, banUntilDate = Some 604803000\<rparr>"
proof -
  let ?e = "scenario_env (classifier_result True 1) ''neutral''"
  let ?w = "scenario_world (scenario_asset ''rejected'' ''Camera Rig'') [(''u1'', clean_user)]"
  have 1: "\<forall>h e. \<not> throws ?e h e" by (simp add: scenario_env_def)
  have 2: "map_of (users ?w) ''u1'' = Some clean_user" by (simp add: scenario_world_def)
  have 3: "\<not> isBanned clean_user" by (simp add: clean_user_def)
  have 4: "active_warnings ''u1'' upload_abuse (warnings ?w) = []"
    by (simp add: scenario_world_def active_warnings_def)
  from third_warning_triggers_ban [OF 1 2 3 4, of 1000 "''first''" None 2000 "''second''" None
         3000 "''third''" None] 1 2 3 4
  show ?thesis by (simp add: Let_def clean_user_def)
qed

section \<open>The ban expiry sweep\<close>

lemma checkExpiredBans_returns: "fst (checkExpiredBans env now w) = Inr ()"
  by (simp add: checkExpiredBans_def io_swallow_def split: prod.splits)

lemma restore_loop_append:
  "restore_loop env now (xs @ ys) n w =
     (case restore_loop env now xs n w of
        (Inl e, w') \<Rightarrow> (Inl e, w')
      | (Inr m, w') \<Rightarrow> restore_loop env now ys m w')"
proof (induction xs arbitrary: n w)
  case Nil
  show ?case by (simp add: io_return_def)
next
  case (Cons x xs)
  show ?case
    by (cases "restore_user env now (fst x) w")
       (auto simp: io_then_def io_bind_def Cons.IH split: sum.splits)
qed

lemma restore_loop_abort:
  assumes "fst (restore_user env now k w) = Inl e"
  shows "restore_loop env now ((k, u) # rest) n w = (Inl e, snd (restore_user env now k w))"
  using assms by (cases "restore_user env now k w") (simp add: io_then_def io_bind_def)

text \<open>Restoring one user leaves every other user's document, auth flag and calls alone.\<close>

lemma update_user_account:
  assumes "k' \<noteq> k"
  shows "account k' (snd (update_user env k b p w)) = account k' w"
  using assms by (simp add: update_user_def account_def Let_def map_of_patch split: option.splits)

lemma auth_updateUser_account:
  assumes "k' \<noteq> k"
  shows "account k' (snd (auth_updateUser env k b w)) = account k' w"
  using assms by (simp add: auth_updateUser_def perform_def account_def Let_def)

lemma restore_user_account:
  assumes "k' \<noteq> k"
  shows "account k' (snd (restore_user env now k w)) = account k' w"
  unfolding restore_user_def
  by (intro keeps_intros update_user_account auth_updateUser_account keeps_notify
        keeps_logAuditAction assms)
     (simp_all add: account_def)

lemma restore_user_calls_about:
  assumes "k' \<noteq> k"
  shows "calls_about k' (snd (restore_user env now k w)) = calls_about k' w"
proof -
  have ne: "k \<noteq> k'" using assms by simp
  show ?thesis
    unfolding restore_user_def
    by (intro keeps_intros keeps_prims) (simp_all add: calls_about_def ne)
qed

lemma restore_loop_account:
  assumes "k' \<notin> fst ` set docs"
  shows "account k' (snd (restore_loop env now docs n w)) = account k' w"
  using assms
proof (induction docs arbitrary: n w)
  case Nil
  show ?case by (simp add: io_return_def)
next
  case (Cons doc docs)
  have "account k' (snd (io_then (restore_user env now (fst doc))
                            (restore_loop env now docs (n + 1)) w)) = account k' w"
    using Cons by (intro keeps_then restore_user_account) auto
  then show ?case by simp
qed

lemma restore_loop_calls_about:
  assumes "k' \<notin> fst ` set docs"
  shows "calls_about k' (snd (restore_loop env now docs n w)) = calls_about k' w"
  using assms
proof (induction docs arbitrary: n w)
  case Nil
  show ?case by (simp add: io_return_def)
next
  case (Cons doc docs)
  have "calls_about k' (snd (io_then (restore_user env now (fst doc))
                            (restore_loop env now docs (n + 1)) w)) = calls_about k' w"
    using Cons by (intro keeps_then restore_user_calls_about) auto
  then show ?case by simp
qed

lemma checkExpiredBans_aborted:
  assumes "\<not> throws env (trace w) EvUsersQueryExpired"
      and "filter (\<lambda>(k, u). ban_expired now u) (users w) = restored @ (k, u) # rest"
      and "restore_loop env now restored 0 (w\<lparr>trace := trace w @ [EvUsersQueryExpired]\<rparr>)
             = (Inr n, w2)"
      and "fst (restore_user env now k w2) = Inl e"
  shows "checkExpiredBans env now w = (Inr (), snd (restore_user env now k w2))"
  using assms
  by (simp add: checkExpiredBans_def io_swallow_def io_bind_def query_expired_def Let_def
        restore_loop_append restore_loop_abort del: restore_loop.simps)

lemma restore_u1_refused:
  "restore_user (auth_refuses ''u1'' (scenario_env (classifier_result False 0) ''neutral'')) 5000 ''u1''
     (two_expired\<lparr>trace := [EvUsersQueryExpired]\<rparr>)
   = (Inl (CallFailed (EvAuthUpdate ''u1'' False)),
      two_expired\<lparr>trace := [EvUsersQueryExpired, EvUserUpdate ''u1'' False, EvAuthUpdate ''u1'' False],
                  users := [(''u1'', unban_patch (banned_until 1000)), (''u2'', banned_until 2000)]\<rparr>)"
  by (simp add: restore_user_def io_defs update_user_def auth_updateUser_def perform_def
        auth_refuses_def two_expired_def scenario_world_def Let_def)

lemma two_expired_query:
  "filter (\<lambda>(k, u). ban_expired 5000 u) (users two_expired)
     = [] @ (''u1'', banned_until 1000) # [(''u2'', banned_until 2000)]"
  by (simp add: two_expired_def scenario_world_def ban_expired_def banned_until_def)

text \<open>
  Claim C6, as stated: a failure while restoring one eligible user does not keep the
  remaining eligible users of the run from being restored. With two users whose bans have
  expired and an auth service that refuses to re-enable the first, the sweep makes three
  calls (the query, the update of \<open>u1\<close>, the refused auth call) and stops: \<open>u2\<close>, whose ban
  expired too, keeps its ban and stays disabled.
\<close>

theorem sweep_isolation_counterexample:
  "ban_expired 5000 (banned_until 2000)
   \<and> trace (snd (checkExpiredBans
                   (auth_refuses ''u1'' (scenario_env (classifier_result False 0) ''neutral''))
                   5000 two_expired))
      = [EvUsersQueryExpired, EvUserUpdate ''u1'' False, EvAuthUpdate ''u1'' False]
   \<and> account ''u2'' (snd (checkExpiredBans
                   (auth_refuses ''u1'' (scenario_env (classifier_result False 0) ''neutral''))
                   5000 two_expired))
      = (Some (banned_until 2000), True)"
proof -
  let ?e = "auth_refuses ''u1'' (scenario_env (classifier_result False 0) ''neutral'')"
  have q: "query_expired ?e 5000 two_expired =
      (Inr [(''u1'', banned_until 1000), (''u2'', banned_until 2000)],
       two_expired\<lparr>trace := [EvUsersQueryExpired]\<rparr>)"
    using two_expired_query
    by (simp add: query_expired_def Let_def auth_refuses_def)
       (simp add: two_expired_def scenario_world_def)
  have run: "checkExpiredBans ?e 5000 two_expired =
      (Inr (), two_expired\<lparr>trace := [EvUsersQueryExpired, EvUserUpdate ''u1'' False,
                                       EvAuthUpdate ''u1'' False],
                  users := [(''u1'', unban_patch (banned_until 1000)), (''u2'', banned_until 2000)]\<rparr>)"
    by (simp add: checkExpiredBans_def io_swallow_def io_bind_def io_then_def q restore_u1_refused)
  show ?thesis
    unfolding run
    by (simp add: account_def two_expired_def scenario_world_def)
       (simp add: ban_expired_def banned_until_def)
qed

text \<open>
  Claim C6, amended. The sweep has one handler, around the query and the whole loop. When
  the users before some eligible user \<open>k\<close> were restored and restoring \<open>k\<close> fails, the
  sweep itself returns normally, in the state that the failed restoration of \<open>k\<close> left;
  every eligible user after \<open>k\<close> in the query's order is left as it was: the document
  still carries the expired ban, the auth flag is unchanged, and no call about that user
  was made.
\<close>

theorem sweep_stops_at_first_failure:
  assumes "\<not> throws env (trace w) EvUsersQueryExpired"
      and "distinct (map fst (users w))"
      and "filter (\<lambda>(k, u). ban_expired now u) (users w) = restored @ (k, u) # rest"
      and "restore_loop env now restored 0 (w\<lparr>trace := trace w @ [EvUsersQueryExpired]\<rparr>)
             = (Inr n, w2)"
      and "fst (restore_user env now k w2) = Inl e"
  shows "checkExpiredBans env now w = (Inr (), snd (restore_user env now k w2))
       \<and> (\<forall>(k', u') \<in> set rest.
             ban_expired now u'
             \<and> account k' (snd (checkExpiredBans env now w)) = (Some u', auth_disabled w k')
             \<and> calls_about k' (snd (checkExpiredBans env now w)) = calls_about k' w)"
proof (intro conjI ballI)
  show run: "checkExpiredBans env now w = (Inr (), snd (restore_user env now k w2))"
    using assms(1,3,4,5) by (rule checkExpiredBans_aborted)
  fix x assume x: "x \<in> set rest"
  obtain k' u' where kx: "x = (k', u')" by (cases x)
  let ?docs = "filter (\<lambda>(k, u). ban_expired now u) (users w)"
  have d: "distinct (map fst ?docs)"
    using assms(2) by (simp add: distinct_map_filter)
  have mem: "(k', u') \<in> set ?docs"
    using x kx assms(3) by simp
  then have exp: "ban_expired now u'" and inw: "(k', u') \<in> set (users w)"
    by auto
  have lookup: "map_of (users w) k' = Some u'"
    using assms(2) inw by simp
  have sep: "k' \<notin> fst ` set restored" "k' \<noteq> k"
    using d x kx unfolding assms(3) by (auto simp: rev_image_eqI)
  let ?w1 = "w\<lparr>trace := trace w @ [EvUsersQueryExpired]\<rparr>"
  have w2: "w2 = snd (restore_loop env now restored 0 ?w1)"
    using assms(4) by simp
  have acc: "account k' (snd (restore_user env now k w2)) = account k' w"
    by (simp add: restore_user_account [OF sep(2)] w2 restore_loop_account [OF sep(1)])
       (simp add: account_def)
  have cab: "calls_about k' (snd (restore_user env now k w2)) = calls_about k' w"
    by (simp add: restore_user_calls_about [OF sep(2)] w2 restore_loop_calls_about [OF sep(1)])
       (simp add: calls_about_def)
  show "case x of (k', u') \<Rightarrow>
          ban_expired now u'
          \<and> account k' (snd (checkExpiredBans env now w)) = (Some u', auth_disabled w k')
          \<and> calls_about k' (snd (checkExpiredBans env now w)) = calls_about k' w"
    unfolding kx run using exp acc cab lookup by (simp add: account_def)
qed

theorem sweep_stops_at_first_failure_witness:
  "\<not> throws (auth_refuses ''u1'' (scenario_env (classifier_result False 0) ''neutral''))
        (trace two_expired) EvUsersQueryExpired
   \<and> distinct (map fst (users two_expired))
   \<and> filter (\<lambda>(k, u). ban_expired 5000 u) (users two_expired)
       = [] @ (''u1'', banned_until 1000) # [(''u2'', banned_until 2000)]
   \<and> restore_loop (auth_refuses ''u1'' (scenario_env (classifier_result False 0) ''neutral''))
        5000 [] 0 (two_expired\<lparr>trace := trace two_expired @ [EvUsersQueryExpired]\<rparr>)
       = (Inr 0, two_expired\<lparr>trace := [EvUsersQueryExpired]\<rparr>)
   \<and> fst (restore_user (auth_refuses ''u1'' (scenario_env (classifier_result False 0) ''neutral''))
            5000 ''u1'' (two_expired\<lparr>trace := [EvUsersQueryExpired]\<rparr>))
       = Inl (CallFailed (EvAuthUpdate ''u1'' False))
   \<and> fst (checkExpiredBans
            (auth_refuses ''u1'' (scenario_env (classifier_result False 0) ''neutral''))
            5000 two_expired) = Inr ()
   \<and> account ''u2'' (snd (checkExpiredBans
            (auth_refuses ''u1'' (scenario_env (classifier_result False 0) ''neutral''))
            5000 two_expired)) = (Some (banned_until 2000), True)
   \<and> calls_about ''u2'' (snd (checkExpiredBans
            (auth_refuses ''u1'' (scenario_env (classifier_result False 0) ''neutral''))
            5000 two_expired)) = []"
proof -
  let ?e = "auth_refuses ''u1'' (scenario_env (classifier_result False 0) ''neutral'')"
  let ?w1 = "two_expired\<lparr>trace := [EvUsersQueryExpired]\<rparr>"
  have tr: "trace two_expired = []" by (simp add: two_expired_def scenario_world_def)
  have 1: "\<not> throws ?e (trace two_expired) EvUsersQueryExpired"
    by (simp add: auth_refuses_def)
  have 2: "distinct (map fst (users two_expired))"
    by (simp add: two_expired_def scenario_world_def)
  note 3 = two_expired_query
  have 4: "restore_loop ?e 5000 [] 0 (two_expired\<lparr>trace := trace two_expired @ [EvUsersQueryExpired]\<rparr>)
             = (Inr 0, ?w1)"
    by (simp add: io_return_def tr)
  have 5: "fst (restore_user ?e 5000 ''u1'' ?w1) = Inl (CallFailed (EvAuthUpdate ''u1'' False))"
    by (simp add: restore_u1_refused)
  have 6: "auth_disabled two_expired ''u2''" "calls_about ''u2'' two_expired = []"
    by (simp_all add: two_expired_def scenario_world_def banned_until_def calls_about_def)
  note r = sweep_stops_at_first_failure [OF 1 2 3 4 5]
  have c: "fst (checkExpiredBans ?e 5000 two_expired) = Inr ()"
    using r [THEN conjunct1] by simp
  have a: "account ''u2'' (snd (checkExpiredBans ?e 5000 two_expired))
              = (Some (banned_until 2000), auth_disabled two_expired ''u2'')"
    and b: "calls_about ''u2'' (snd (checkExpiredBans ?e 5000 two_expired))
              = calls_about ''u2'' two_expired"
    using r [THEN conjunct2] by simp_all
  show ?thesis
    unfolding c a b using 1 2 3 4 5 6 by simp
qed


section \<open>The entry guard of the pipeline\<close>

text \<open>The trace of calls only grows.\<close>

lemma grows_bind:
  assumes "\<And>w. \<exists>t. trace (snd (m w)) = trace w @ t"
      and "\<And>x w. \<exists>t. trace (snd (g x w)) = trace w @ t"
  shows "\<exists>t. trace (snd (io_bind m g w)) = trace w @ t"
proof (cases "m w")
  case (Pair r w')
  obtain t where t: "trace w' = trace w @ t"
    using assms(1) [of w] Pair by auto
  show ?thesis
  proof (cases r)
    case (Inl e)
    then show ?thesis using Pair t by (simp add: io_bind_def)
  next
    case (Inr x)
    obtain t' where "trace (snd (g x w')) = trace w' @ t'"
      using assms(2) by blast
    then show ?thesis using Pair Inr t by (simp add: io_bind_def)
  qed
qed

lemma grows_then:
  assumes "\<And>w. \<exists>t. trace (snd (m w)) = trace w @ t"
      and "\<And>w. \<exists>t. trace (snd (k w)) = trace w @ t"
  shows "\<exists>t. trace (snd (io_then m k w)) = trace w @ t"
  unfolding io_then_def using assms by (rule grows_bind)

lemma grows_catch:
  assumes "\<And>w. \<exists>t. trace (snd (m w)) = trace w @ t"
      and "\<And>e w. \<exists>t. trace (snd (h e w)) = trace w @ t"
  shows "\<exists>t. trace (snd (io_catch m h w)) = trace w @ t"
proof (cases "m w")
  case (Pair r w')
  obtain t where t: "trace w' = trace w @ t"
    using assms(1) [of w] Pair by auto
  show ?thesis
  proof (cases r)
    case (Inl e)
    obtain t' where "trace (snd (h e w')) = trace w' @ t'"
      using assms(2) by blast
    then show ?thesis using Pair Inl t by (simp add: io_catch_def)
  next
    case (Inr x)
    then show ?thesis using Pair t by (simp add: io_catch_def)
  qed
qed

lemma grows_swallow:
  assumes "\<And>w. \<exists>t. trace (snd (m w)) = trace w @ t"
  shows "\<exists>t. trace (snd (io_swallow m w)) = trace w @ t"
  using assms [of w] by (cases "m w") (simp add: io_swallow_def)

lemma grows_if:
  assumes "c \<Longrightarrow> \<exists>t. trace (snd (m w)) = trace w @ t"
      and "\<not> c \<Longrightarrow> \<exists>t. trace (snd (k w)) = trace w @ t"
  shows "\<exists>t. trace (snd ((if c then m else k) w)) = trace w @ t"
  using assms by simp

lemma grows_return: "\<exists>t. trace (snd (io_return x w)) = trace w @ t"
  by (simp add: io_return_def)

lemma grows_perform:
  assumes "\<And>w. trace (effect w) = trace w"
  shows "\<exists>t. trace (snd (perform env ev effect w)) = trace w @ t"
  using assms by (simp add: perform_def Let_def)

lemma grows_update_asset: "\<exists>t. trace (snd (update_asset env i st p w)) = trace w @ t"
  by (simp add: update_asset_def Let_def split: option.splits)

lemma grows_update_user: "\<exists>t. trace (snd (update_user env u b p w)) = trace w @ t"
  by (simp add: update_user_def Let_def split: option.splits)

lemma grows_query_warnings: "\<exists>t. trace (snd (query_warnings env u r w)) = trace w @ t"
  by (simp add: query_warnings_def Let_def)

lemma grows_checkImage: "\<exists>t. trace (snd (checkImageForNSFW env url w)) = trace w @ t"
  by (simp add: checkImageForNSFW_def Let_def split: sum.splits)

lemma grows_logAuditAction:
  "\<exists>t. trace (snd (logAuditAction env now actor action target sens d ip ua w)) = trace w @ t"
  by (simp add: logAuditAction_cases)

lemma grows_auth: "\<exists>t. trace (snd (auth_updateUser env u b w)) = trace w @ t"
  unfolding auth_updateUser_def by (rule grows_perform) simp

lemma grows_notify: "\<exists>t. trace (snd (add_notification env u ty title w)) = trace w @ t"
  unfolding add_notification_def by (rule grows_perform) simp

lemmas grows_intros = grows_bind grows_then grows_catch grows_swallow grows_if grows_return
  grows_update_asset grows_update_user grows_query_warnings grows_checkImage
  grows_logAuditAction grows_auth grows_notify

lemma grows_createWarning:
  "\<exists>t. trace (snd (createWarning env now u r m ev w)) = trace w @ t"
  unfolding createWarning_def Let_def
  by (intro grows_intros grows_perform) simp

text \<open>A computation whose first step records a call starts with that call.\<close>

lemma starts_catch:
  assumes "\<exists>t. trace (snd (m w)) = trace w @ ev # t"
      and "\<And>e w. \<exists>t. trace (snd (h e w)) = trace w @ t"
  shows "\<exists>t. trace (snd (io_catch m h w)) = trace w @ ev # t"
proof (cases "m w")
  case (Pair r w')
  obtain t where t: "trace w' = trace w @ ev # t"
    using assms(1) Pair by auto
  show ?thesis
  proof (cases r)
    case (Inl e)
    obtain t' where "trace (snd (h e w')) = trace w' @ t'"
      using assms(2) by blast
    then show ?thesis using Pair Inl t by (simp add: io_catch_def)
  next
    case (Inr x)
    then show ?thesis using Pair t by (simp add: io_catch_def)
  qed
qed

lemma starts_bind:
  assumes "\<exists>t. trace (snd (m w)) = trace w @ ev # t"
      and "\<And>x w. \<exists>t. trace (snd (g x w)) = trace w @ t"
  shows "\<exists>t. trace (snd (io_bind m g w)) = trace w @ ev # t"
proof (cases "m w")
  case (Pair r w')
  obtain t where t: "trace w' = trace w @ ev # t"
    using assms(1) Pair by auto
  show ?thesis
  proof (cases r)
    case (Inl e)
    then show ?thesis using Pair t by (simp add: io_bind_def)
  next
    case (Inr x)
    obtain t' where "trace (snd (g x w')) = trace w' @ t'"
      using assms(2) by blast
    then show ?thesis using Pair Inr t by (simp add: io_bind_def)
  qed
qed

lemma starts_update_asset:
  "\<exists>t. trace (snd (update_asset env i st p w)) = trace w @ EvAssetUpdate i st # t"
  by (simp add: update_asset_def Let_def split: option.splits)

text \<open>The guard of lines 30-34, on the snapshot that the trigger delivers.\<close>

lemma onAssetUploaded_guard:
  "status a \<noteq> ''uploading'' \<Longrightarrow> onAssetUploaded env now assetId a w = (Inr (), w)"
  by (simp add: onAssetUploaded_def io_return_def)

text \<open>Past the guard the handler always makes a call, whatever the store holds.\<close>

lemma onAssetUploaded_acts:
  assumes "status a = ''uploading''"
  shows "\<exists>t. trace (snd (onAssetUploaded env now assetId a w))
               = trace w @ first_call env assetId a # t"
proof -
  have handler: "\<exists>t. trace (snd (io_swallow
                   (update_asset env assetId ''rejected'' (reject_patch now (VerificationFailed e))) w'))
                 = trace w' @ t" for e w'
    by (intro grows_intros)
  have reject: "\<exists>t. trace (snd (io_catch (update_asset env assetId ''rejected'' p)
                  (\<lambda>error. io_swallow (update_asset env assetId ''rejected''
                     (reject_patch now (VerificationFailed error)))) w))
                 = trace w @ EvAssetUpdate assetId ''rejected'' # t" for p
    by (rule starts_catch [OF starts_update_asset handler])
  show ?thesis
  proof (cases "imageUrl a")
    case None
    then show ?thesis using assms reject by (simp add: onAssetUploaded_def first_call_def)
  next
    case (Some url)
    show ?thesis
    proof (cases "url = [] \<or> \<not> valid_URL env url")
      case True
      then show ?thesis
        using assms Some reject by (auto simp: onAssetUploaded_def first_call_def)
    next
      case False
      show ?thesis
      proof (cases "key_missing (OPENROUTER_API_KEY env)")
        case True
        have c: "checkImageForNSFW env url w = (Inl ServiceUnavailable, w)"
          using True by (simp add: checkImageForNSFW_def)
        have "\<exists>t. trace (snd (update_asset env assetId ''rejected''
                  (reject_patch now (VerificationFailed ServiceUnavailable)) w))
                = trace w @ EvAssetUpdate assetId ''rejected'' # t"
          by (rule starts_update_asset)
        then show ?thesis
          using assms Some False True
          by (simp add: onAssetUploaded_classifier_failed [OF _ _ _ _ c] first_call_def)
      next
        case k: False
        have s: "\<exists>t. trace (snd (checkImageForNSFW env url w)) = trace w @ EvImageFetch url # t"
          using k by (simp add: checkImageForNSFW_def Let_def split: sum.splits)
        have "\<exists>t. trace (snd (io_catch (io_bind (checkImageForNSFW env url) g)
                  (\<lambda>error. io_swallow (update_asset env assetId ''rejected''
                     (reject_patch now (VerificationFailed error)))) w))
              = trace w @ EvImageFetch url # t"
          if "\<And>x w. \<exists>t. trace (snd (g x w)) = trace w @ t" for g
        proof (rule starts_catch)
          show "\<exists>t. trace (snd (io_bind (checkImageForNSFW env url) g w))
                  = trace w @ EvImageFetch url # t"
            using s that by (rule starts_bind)
        qed (rule handler)
        note main = this
        have "\<exists>t. trace (snd (onAssetUploaded env now assetId a w)) = trace w @ EvImageFetch url # t"
          using assms Some False
          apply (simp add: onAssetUploaded_def)
          apply (rule main)
          apply (intro grows_intros grows_createWarning)
          done
        then show ?thesis using Some False k by (simp add: first_call_def)
      qed
    qed
  qed
qed

text \<open>
  Claim C7, as stated: an invocation for an asset whose status is not \<open>uploading\<close> returns
  at once, hence a repeated delivery against an already-decided asset changes nothing.
  The handler reads the status of the snapshot it is given and never the stored document.
  When the creation snapshot (status \<open>uploading\<close>) is delivered again while the stored
  asset is already \<open>published\<close>, and the image service flags the image, the run sets the
  stored status to \<open>rejected\<close> and makes a \<^verbatim>\<open>createWarning\<close> call.
\<close>

theorem redelivery_changes_decided_asset_counterexample:
  "stored_status
     (scenario_world (scenario_asset ''published'' ''Camera Rig'') [(''u1'', clean_user)]) ''a1''
     = Some ''published''
   \<and> stored_status
       (snd (onAssetUploaded (scenario_env (classifier_result True (9 / 10)) ''neutral'') 7 ''a1''
               (scenario_asset ''uploading'' ''Camera Rig'')
               (scenario_world (scenario_asset ''published'' ''Camera Rig'') [(''u1'', clean_user)])))
       ''a1'' = Some ''rejected''
   \<and> warning_calls
       (snd (onAssetUploaded (scenario_env (classifier_result True (9 / 10)) ''neutral'') 7 ''a1''
               (scenario_asset ''uploading'' ''Camera Rig'')
               (scenario_world (scenario_asset ''published'' ''Camera Rig'') [(''u1'', clean_user)])))
       = [EvWarningsQuery ''u1'' upload_abuse]"
proof -
  let ?e = "scenario_env (classifier_result True (9 / 10)) ''neutral''"
  let ?a = "scenario_asset ''uploading'' ''Camera Rig''"
  let ?p = "scenario_asset ''published'' ''Camera Rig''"
  let ?w = "scenario_world ?p [(''u1'', clean_user)]"
  let ?u = "''https://valid/img.png''"
  let ?v = "\<lparr>isNSFW = True, confidence = 9 / 10, reason = ''[safe] checked''\<rparr>"
  let ?w1 = "?w\<lparr>trace := [EvImageFetch ?u]\<rparr>"
  have c: "checkImageForNSFW ?e ?u ?w = (Inr ?v, ?w1)"
    by (simp add: scenario_checkImage) (simp add: scenario_world_def)
  have run: "onAssetUploaded ?e 7 ''a1'' ?a ?w =
     (Inr (),
      snd (logAuditAction ?e 7 (authorId ?a) ''UPLOAD_REJECTED_NSFW'' ''a1'' True
             [(''assetName'', JStr (name ?a)), (''confidence'', JNum (confidence ?v)),
              (''reason'', JStr (reason ?v))] None None
        (snd (createWarning ?e 7 (authorId ?a) upload_abuse (warning_message ?e ?a ?v) (Some ?u)
           (?w1\<lparr>trace := trace ?w1 @ [EvAssetUpdate ''a1'' ''rejected''],
                assets := (assets ?w1)(''a1'' \<mapsto> reject_nsfw_patch 7 ?v ?p)\<rparr>)))))"
    by (rule onAssetUploaded_flagged [OF _ _ _ _ c])
       (simp_all add: scenario_asset_def valid_URL_scenario throws_scenario scenario_world_def)
  have au: "authorId ?a = ''u1''" by (simp add: scenario_asset_def)
  show ?thesis
    unfolding run
    by (simp add: stored_status_def logAuditAction_cases createWarning_assets
          reject_nsfw_patch_def warning_calls_def
          createWarning_calls [unfolded warning_calls_def] au)
       (simp add: scenario_world_def scenario_asset_def)
qed

text \<open>
  Claim C7, amended. An invocation whose delivered snapshot has a status other than
  \<open>uploading\<close> (so in particular \<open>published\<close> or \<open>rejected\<close>) returns at once: it returns
  normally and the state, with its trace of calls, is the one it started from, so no update
  of the asset, no warning and no audit entry is made. The guard is on the delivered
  snapshot only: an invocation whose snapshot has status \<open>uploading\<close> always acts, its
  first call being the update to \<open>rejected\<close> or the request to the image service,
  whatever status the stored asset has.
\<close>

theorem guard_reads_delivered_snapshot:
  "(status a \<noteq> ''uploading'' \<longrightarrow> onAssetUploaded env now assetId a w = (Inr (), w))
   \<and> (status a = ''uploading'' \<longrightarrow>
        (\<exists>t. trace (snd (onAssetUploaded env now assetId a w))
               = trace w @ first_call env assetId a # t))"
  using onAssetUploaded_guard [of a env now assetId w]
        onAssetUploaded_acts [of a env now assetId w]
  by simp

theorem guard_reads_delivered_snapshot_witness:
  "status (scenario_asset ''published'' ''Camera Rig'') \<noteq> ''uploading''
   \<and> status (scenario_asset ''rejected'' ''Camera Rig'') \<noteq> ''uploading''
   \<and> onAssetUploaded (scenario_env (classifier_result True 1) ''neutral'') 0 ''a1''
         (scenario_asset ''published'' ''Camera Rig'')
         (scenario_world (scenario_asset ''published'' ''Camera Rig'') [(''u1'', clean_user)])
       = (Inr (), scenario_world (scenario_asset ''published'' ''Camera Rig'') [(''u1'', clean_user)])
   \<and> onAssetUploaded (scenario_env (classifier_result False 0) ''neutral'') 0 ''a1''
         (scenario_asset ''rejected'' ''Camera Rig'')
         (scenario_world (scenario_asset ''rejected'' ''Camera Rig'') [(''u1'', clean_user)])
       = (Inr (), scenario_world (scenario_asset ''rejected'' ''Camera Rig'') [(''u1'', clean_user)])
   \<and> status (scenario_asset ''uploading'' ''Camera Rig'') = ''uploading''
   \<and> (\<exists>t. trace (snd (onAssetUploaded (scenario_env (classifier_result False 0) ''neutral'') 0 ''a1''
                         (scenario_asset ''uploading'' ''Camera Rig'')
                         (scenario_world (scenario_asset ''published'' ''Camera Rig'')
                            [(''u1'', clean_user)])))
            = EvImageFetch ''https://valid/img.png'' # t)"
proof -
  let ?p = "scenario_asset ''published'' ''Camera Rig''"
  let ?r = "scenario_asset ''rejected'' ''Camera Rig''"
  let ?a = "scenario_asset ''uploading'' ''Camera Rig''"
  let ?e = "scenario_env (classifier_result False 0) ''neutral''"
  have 1: "status ?p \<noteq> ''uploading''" and 2: "status ?r \<noteq> ''uploading''"
    and 3: "status ?a = ''uploading''"
    by (simp_all add: scenario_asset_def)
  have 4: "first_call ?e ''a1'' ?a = EvImageFetch ''https://valid/img.png''"
    by (simp add: first_call_def scenario_asset_def valid_URL_scenario key_missing_def)
       (simp add: scenario_env_def)
  have 5: "trace (scenario_world ?p [(''u1'', clean_user)]) = []"
    by (simp add: scenario_world_def)
  note skip1 = guard_reads_delivered_snapshot
      [of ?p "scenario_env (classifier_result True 1) ''neutral''" 0 "''a1''"
          "scenario_world ?p [(''u1'', clean_user)]", THEN conjunct1, rule_format, OF 1]
  note skip2 = guard_reads_delivered_snapshot
      [of ?r ?e 0 "''a1''" "scenario_world ?r [(''u1'', clean_user)]",
       THEN conjunct1, rule_format, OF 2]
  note acts = guard_reads_delivered_snapshot
      [of ?a ?e 0 "''a1''" "scenario_world ?p [(''u1'', clean_user)]",
       THEN conjunct2, rule_format, OF 3]
  from skip1 skip2 acts 1 2 3 4 5 show ?thesis by simp
qed

end
